theory Spec2Isabelle
  imports Complex_Main "HOL-Library.Product_Lexorder"
begin

section \<open>Conventions of the embedding\<close>

text \<open>
  The theory embeds the powder-diffraction engine of Mint (\<^verbatim>\<open>diffraction.h\<close>,
  \<^verbatim>\<open>diffraction.cpp\<close>).

  \<^item> A C++ \<^verbatim>\<open>double\<close> is a \<^typ>\<open>real\<close>: arithmetic is exact, there is no rounding and
    no overflow. Where the behaviour of the code hinges on a value that is not a number
    (the square root of a negative number in \<^verbatim>\<open>generatePeakSignal\<close>) the value is made
    explicit by the type \<open>dbl\<close>; where the code divides by a sum that may be zero
    (\<^verbatim>\<open>getCurrentRFactor\<close>) the model answers \<open>NotFinite\<close>.
  \<^item> \<^verbatim>\<open>std::vector\<close>, \<^verbatim>\<open>List\<close>, \<^verbatim>\<open>OList\<close> and \<^verbatim>\<open>Linked\<close> are HOL lists. An
    index outside the container is undefined behaviour in C++; the model answers
    \<open>OutOfRange\<close>. The one exception is the grid of angles in
    \<^verbatim>\<open>generatePeakSignal\<close>, whose loops read one element past the end in ordinary use:
    there the value read past the end is a parameter of the model (section
    ``Synthesis of the profile''), and a loop that never ends answers \<open>NoReturn\<close>.
  \<^item> \<^verbatim>\<open>Output::quit()\<close> ends the program: the model answers \<open>Quit\<close>. A C++
    \<^verbatim>\<open>throw 10\<close> is the value \<open>Thrown 10\<close>.
  \<^item> A member function that mutates its object takes the object and returns the new one.
    What the pointers to the structure and to the symmetry point to (the basis, the list
    of orbits, the list of operations) is an argument of the functions of a peak and a
    field of a calculated pattern.
  \<^item> The unqualified \<^verbatim>\<open>abs\<close> of the source is applied to doubles and is the absolute
    value of a double.
\<close>

datatype error = OutOfRange | Quit | NotFinite | Thrown int | NoReturn

definition nth_opt :: "'a list \<Rightarrow> nat \<Rightarrow> error + 'a" where
  "nth_opt xs i = (if i < length xs then Inr (xs ! i) else Inl OutOfRange)"

definition bind :: "error + 'a \<Rightarrow> ('a \<Rightarrow> error + 'b) \<Rightarrow> error + 'b" where
  "bind m f = (case m of Inl e \<Rightarrow> Inl e | Inr x \<Rightarrow> f x)"

section \<open>Vectors and matrices\<close>

text \<open>
  Modelled from the spec: \<^verbatim>\<open>Vector3D\<close>, \<^verbatim>\<open>Matrix3D\<close> and the conversions
  \<^verbatim>\<open>Num<double>::toRadians\<close> and \<^verbatim>\<open>Num<double>::toDegrees\<close> are declared outside the two
  source files; the specification lists vector arithmetic and the matrix inverse among
  the linear-algebra primitives it takes as given. They are the usual operations: the
  scalar product (\<^verbatim>\<open>v * w\<close>), the Euclidean norm (\<^verbatim>\<open>magnitude()\<close>), the product of a
  matrix and a vector, the product of two matrices and the transpose.
\<close>

type_synonym Vector3D = "real \<times> real \<times> real"

text \<open>A matrix is the triple of its rows.\<close>

type_synonym Matrix3D = "Vector3D \<times> Vector3D \<times> Vector3D"

fun vdot :: "Vector3D \<Rightarrow> Vector3D \<Rightarrow> real" where
  "vdot (a, b, c) (x, y, z) = a * x + b * y + c * z"

definition magnitude :: "Vector3D \<Rightarrow> real" where
  "magnitude v = sqrt (vdot v v)"

fun mvmul :: "Matrix3D \<Rightarrow> Vector3D \<Rightarrow> Vector3D" where
  "mvmul (r0, r1, r2) v = (vdot r0 v, vdot r1 v, vdot r2 v)"

fun transpose3 :: "Matrix3D \<Rightarrow> Matrix3D" where
  "transpose3 ((a, b, c), (d, e, f), (g, h, i)) = ((a, d, g), (b, e, h), (c, f, i))"

definition mmul :: "Matrix3D \<Rightarrow> Matrix3D \<Rightarrow> Matrix3D" where
  "mmul m n = (case transpose3 n of (c0, c1, c2) \<Rightarrow>
     transpose3 (mvmul m c0, mvmul m c1, mvmul m c2))"

definition identity3 :: Matrix3D where
  "identity3 = ((1, 0, 0), (0, 1, 0), (0, 0, 1))"

definition toRadians :: "real \<Rightarrow> real" where
  "toRadians x = x * pi / 180"

definition toDegrees :: "real \<Rightarrow> real" where
  "toDegrees x = x * 180 / pi"

section \<open>Peaks\<close>

datatype Method = DM_XRAY | DM_NEUTRON | DM_SIMPLE | DM_NONE

text \<open>\<^verbatim>\<open>class DiffractionPeak\<close>; \<open>twoThetaRad\<close> is the member \<^verbatim>\<open>_twoThetaRad\<close>.\<close>

record DiffractionPeak =
  patternIndex :: int
  twoThetaRad :: real
  TwoThetaDeg :: real
  peakIntensity :: real

text \<open>The constructor \<^verbatim>\<open>DiffractionPeak(twoThetaDegrees, intensity)\<close>.\<close>

definition newDiffractionPeak :: "real \<Rightarrow> real \<Rightarrow> DiffractionPeak" where
  "newDiffractionPeak twoThetaDegrees intensity =
     \<lparr> patternIndex = -1, twoThetaRad = toRadians twoThetaDegrees,
       TwoThetaDeg = twoThetaDegrees, peakIntensity = intensity \<rparr>"

definition getAngle :: "'a DiffractionPeak_scheme \<Rightarrow> real" where
  "getAngle p = TwoThetaDeg p"

definition getAngleRadians :: "'a DiffractionPeak_scheme \<Rightarrow> real" where
  "getAngleRadians p = twoThetaRad p"

definition getIntensity :: "'a DiffractionPeak_scheme \<Rightarrow> real" where
  "getIntensity p = peakIntensity p"

text \<open>
  \<^verbatim>\<open>class CalculatedPeak : public DiffractionPeak\<close>. The members \<^verbatim>\<open>structure\<close> and
  \<^verbatim>\<open>symmetry\<close> are pointers; what they point to is an argument of the functions below.
  \<open>peakMethod\<close> is the member \<^verbatim>\<open>method\<close>.
\<close>

record CalculatedPeak = DiffractionPeak +
  peakMethod :: Method
  wavelength :: real
  hkl :: Vector3D
  equivHKL :: "Vector3D list"
  recipLatVecs :: "Vector3D list"
  lpFactor :: real
  multiplicity :: real

text \<open>
  The part of \<^verbatim>\<open>Basis\<close> (declared outside the two source files) that the engine reads:
  the matrices returned by \<^verbatim>\<open>inverse()\<close>, \<^verbatim>\<open>reducedInverse()\<close>, \<^verbatim>\<open>unitToReduced()\<close>
  and \<^verbatim>\<open>unitPointToReduced()\<close>.
\<close>

record Basis =
  inverseB :: Matrix3D
  reducedInverse :: Matrix3D
  unitToReduced :: Matrix3D
  unitPointToReduced :: Matrix3D

text \<open>\<^verbatim>\<open>CalculatedPeak::getLPFactor\<close>, \<^verbatim>\<open>diffraction.h\<close> line 790.\<close>

definition getLPFactor :: "real \<Rightarrow> real" where
  "getLPFactor angle = (1 + (cos (2 * angle))\<^sup>2) / (cos angle * (sin angle)\<^sup>2)"

text \<open>\<^verbatim>\<open>CalculatedPeak::getDiffractionAngle\<close>, \<^verbatim>\<open>diffraction.h\<close> line 855.\<close>

definition getDiffractionAngle :: "Basis \<Rightarrow> Vector3D \<Rightarrow> real \<Rightarrow> real" where
  "getDiffractionAngle basis v wl =
     (let arg = magnitude (mvmul (inverseB basis) v) * wl / 2
      in if arg \<ge> -1 \<and> arg \<le> 1 then arcsin arg
         else if arg < -1 then - pi / 2
         else pi / 2)"

text \<open>\<^verbatim>\<open>CalculatedPeak::updatePeakPosition\<close>, \<^verbatim>\<open>diffraction.h\<close> line 163.\<close>

definition updatePeakPosition :: "Basis \<Rightarrow> CalculatedPeak \<Rightarrow> CalculatedPeak" where
  "updatePeakPosition basis p =
     (let rad = 2 * getDiffractionAngle basis (hkl p) (wavelength p)
      in p\<lparr> twoThetaRad := rad,
            TwoThetaDeg := toDegrees rad,
            lpFactor := getLPFactor (rad / 2),
            recipLatVecs := map (mvmul (inverseB basis)) (equivHKL p) \<rparr>)"

text \<open>The constructor of \<^verbatim>\<open>CalculatedPeak\<close>, \<^verbatim>\<open>diffraction.h\<close> line 145.\<close>

definition newCalculatedPeak ::
  "Method \<Rightarrow> Basis \<Rightarrow> real \<Rightarrow> Vector3D \<Rightarrow> Vector3D list \<Rightarrow> CalculatedPeak" where
  "newCalculatedPeak m basis wl v equivs =
     updatePeakPosition basis
       \<lparr> patternIndex = -1, twoThetaRad = toRadians (-1), TwoThetaDeg = -1,
         peakIntensity = -1, peakMethod = m, wavelength = wl, hkl = v, equivHKL = equivs,
         recipLatVecs = [], lpFactor = 0, multiplicity = real (length equivs) \<rparr>"

section \<open>Integrated intensity of a reflection\<close>

text \<open>
  The part of \<^verbatim>\<open>Atom\<close> and of an orbit of \<^verbatim>\<open>Symmetry\<close> that the structure factor reads.
\<close>

record Atom =
  fractional :: Vector3D
  occupancy :: real

record Orbit =
  atoms :: "Atom list"

text \<open>
  \<^verbatim>\<open>CalculatedPeak::thermalFactor(angle, wavelength, Bfactor = 1)\<close>, \<^verbatim>\<open>diffraction.h\<close>
  line 841. The third parameter has the default value 1.
\<close>

definition thermalFactor :: "real \<Rightarrow> real \<Rightarrow> real \<Rightarrow> real" where
  "thermalFactor angle wl Bfactor = exp (- Bfactor * (sin angle / wl)\<^sup>2)"

text \<open>
  \<^verbatim>\<open>CalculatedPeak::atomicScatteringFactor\<close>, \<^verbatim>\<open>diffraction.cpp\<close> line 2878. The warning
  printed for \<open>s > 2\<close> has no effect on the result.
\<close>

definition atomicScatteringFactor :: "real list \<Rightarrow> real \<Rightarrow> real \<Rightarrow> error + real" where
  "atomicScatteringFactor atfParams angle wl =
     (let s = sin angle / wl; s2 = s * s
      in if length atfParams < 9 then Inl OutOfRange
         else Inr (atfParams ! 0 * exp (- (atfParams ! 4) * s2)
                 + atfParams ! 1 * exp (- (atfParams ! 5) * s2)
                 + atfParams ! 2 * exp (- (atfParams ! 6) * s2)
                 + atfParams ! 3 * exp (- (atfParams ! 7) * s2)
                 + atfParams ! 8))"

text \<open>
  The loop over the atoms of one orbit in \<^verbatim>\<open>structureFactorSquared\<close>
  (\<^verbatim>\<open>diffraction.cpp\<close> lines 1418 to 1430): the pair is \<^verbatim>\<open>(real, imag)\<close>.
\<close>

fun addAtoms :: "real \<Rightarrow> Vector3D \<Rightarrow> Atom list \<Rightarrow> real \<times> real \<Rightarrow> real \<times> real" where
  "addAtoms pre0 v [] acc = acc"
| "addAtoms pre0 v (curAtom # rest) (re, im) =
     (let dot = 2 * pi * vdot v (fractional curAtom);
          sinTerm = sin dot;
          cosTerm = cos dot;
          pre = pre0 * occupancy curAtom
      in addAtoms pre0 v rest (re + pre * cosTerm, im + pre * sinTerm))"

text \<open>
  The loop over the orbits, \<^verbatim>\<open>diffraction.cpp\<close> lines 1410 to 1431; \<open>i\<close> is the index of
  the first orbit of the list. Line 1415 reads
  \<^verbatim>\<open>thermFactor = (method == DM_SIMPLE) ? 1 : thermalFactor(angle, BFactors[i]);\<close>
  so the B factor of the orbit is the second argument of \<open>thermalFactor\<close> and the third
  argument takes its default value. Line 1413 reads \<^verbatim>\<open>atoms()[0]\<close> of every orbit.
\<close>

fun addOrbits :: "Method \<Rightarrow> real \<Rightarrow> real \<Rightarrow> Vector3D \<Rightarrow> real list \<Rightarrow> real list list
    \<Rightarrow> nat \<Rightarrow> Orbit list \<Rightarrow> real \<times> real \<Rightarrow> error + real \<times> real" where
  "addOrbits m wl angle v BFactors atfParams i [] acc = Inr acc"
| "addOrbits m wl angle v BFactors atfParams i (orb # rest) acc =
     (if atoms orb = [] then Inl OutOfRange
      else bind (nth_opt atfParams i) (\<lambda>atf.
           bind (atomicScatteringFactor atf angle wl) (\<lambda>scatteringFactor.
           bind (if m = DM_SIMPLE then Inr 1
                 else bind (nth_opt BFactors i) (\<lambda>B. Inr (thermalFactor angle B 1)))
             (\<lambda>thermFactor.
               addOrbits m wl angle v BFactors atfParams (Suc i) rest
                 (addAtoms (scatteringFactor * thermFactor) v (atoms orb) acc)))))"

text \<open>\<^verbatim>\<open>CalculatedPeak::structureFactorSquared\<close>, \<^verbatim>\<open>diffraction.cpp\<close> line 1396.\<close>

definition structureFactorSquared :: "Method \<Rightarrow> real \<Rightarrow> Orbit list \<Rightarrow> real \<Rightarrow> Vector3D
    \<Rightarrow> real list \<Rightarrow> real list list \<Rightarrow> error + real" where
  "structureFactorSquared m wl orbits angle v BFactors atfParams =
     bind (addOrbits m wl angle v BFactors atfParams 0 orbits (0, 0))
       (\<lambda>(re, im). Inr (re * re + im * im))"

text \<open>
  \<^verbatim>\<open>CalculatedPeak::getTexturingFactor\<close>, \<^verbatim>\<open>diffraction.h\<close> line 819 (March-Dollase).
  \<^verbatim>\<open>pow(x, -1.5)\<close> is \<open>x powr (-3/2)\<close>.
\<close>

definition getTexturingFactor :: "Vector3D \<Rightarrow> real \<Rightarrow> Vector3D list \<Rightarrow> real" where
  "getTexturingFactor preferredOrientation tau recipLatticeVectors =
     (let preNorm = magnitude preferredOrientation;
          term = (\<lambda>r. let cosphi0 = vdot preferredOrientation r / preNorm / magnitude r;
                          cosphi = cosphi0 * cosphi0
                      in (tau * tau * cosphi + (1 - cosphi) / tau) powr (- 3 / 2))
      in foldl (\<lambda>output r. output + term r) 0 recipLatticeVectors
           / real (length recipLatticeVectors))"

text \<open>\<^verbatim>\<open>CalculatedPeak::updateCalculatedIntensity\<close>, \<^verbatim>\<open>diffraction.cpp\<close> line 994.\<close>

definition updateCalculatedIntensity :: "Orbit list \<Rightarrow> real list \<Rightarrow> real list list
    \<Rightarrow> Vector3D \<Rightarrow> real \<Rightarrow> CalculatedPeak \<Rightarrow> error + CalculatedPeak" where
  "updateCalculatedIntensity orbits BFactors atfParams preferredOrientation
       texturingStrength p =
     bind (structureFactorSquared (peakMethod p) (wavelength p) orbits (twoThetaRad p / 2)
             (hkl p) BFactors atfParams)
       (\<lambda>f2. Inr (p\<lparr> peakIntensity :=
            f2 * lpFactor p * multiplicity p
               * getTexturingFactor preferredOrientation texturingStrength
                   (recipLatVecs p) \<rparr>))"

text \<open>
  The structure factor as the specification words it: the sum over all orbits and their
  atom images of \<open>f \<sqdot> exp (- B (sin \<theta> / \<lambda>)\<^sup>2) \<sqdot> occ \<sqdot> exp (i 2 \<pi> hkl \<sqdot> r)\<close>, the thermal
  factor being 1 for the method \<open>SIMPLE\<close>. It is compared with the code below.
\<close>

definition specThermal :: "Method \<Rightarrow> real \<Rightarrow> real \<Rightarrow> real \<Rightarrow> real" where
  "specThermal m wl angle B = (if m = DM_SIMPLE then 1 else exp (- B * (sin angle / wl)\<^sup>2))"

fun specAmplitude :: "Method \<Rightarrow> real \<Rightarrow> real \<Rightarrow> Vector3D
    \<Rightarrow> (Orbit \<times> real \<times> real) list \<Rightarrow> complex" where
  "specAmplitude m wl angle v [] = 0"
| "specAmplitude m wl angle v ((orb, B, f) # rest) =
     (\<Sum>a \<leftarrow> atoms orb. of_real (f * specThermal m wl angle B * occupancy a)
                         * cis (2 * pi * vdot v (fractional a)))
     + specAmplitude m wl angle v rest"

definition specStructureFactorSquared :: "Method \<Rightarrow> real \<Rightarrow> real \<Rightarrow> Vector3D
    \<Rightarrow> (Orbit \<times> real \<times> real) list \<Rightarrow> real" where
  "specStructureFactorSquared m wl angle v orbs = (cmod (specAmplitude m wl angle v orbs))\<^sup>2"

section \<open>Patterns\<close>

datatype PatternType = PT_NONE | PT_EXP_RAW | PT_EXP_INT | PT_CALCULATED

datatype Rmethod = DR_ABS | DR_SQUARED | DR_RIETVELD

text \<open>
  \<^verbatim>\<open>class Diffraction\<close>. The members \<^verbatim>\<open>_type\<close>, \<^verbatim>\<open>_method\<close>, \<^verbatim>\<open>_wavelength\<close>,
  \<^verbatim>\<open>_minTwoTheta\<close>, \<^verbatim>\<open>_maxTwoTheta\<close>, \<^verbatim>\<open>_resolution\<close>, \<^verbatim>\<open>_matchingPeaks\<close>,
  \<^verbatim>\<open>_unmatchedPeaks\<close> and \<^verbatim>\<open>_optimalScale\<close>, in this order. The indices kept in the
  two lists are values of loop counters that start at 0.
\<close>

record Diffraction =
  patternType :: PatternType
  patternMethod :: Method
  patternWavelength :: real
  minTwoTheta :: real
  maxTwoTheta :: real
  resolution :: real
  matchingPeaks :: "nat list list"
  unmatchedPeaks :: "nat list"
  optimalScale :: real

section \<open>Matching calculated peaks to reference peaks\<close>

text \<open>
  The inner loop of \<^verbatim>\<open>Diffraction::matchPeaksToReference\<close> (\<^verbatim>\<open>diffraction.cpp\<close> lines
  1359 to 1366) over the reference peaks from index \<open>refPeak\<close> on; the pair is
  \<^verbatim>\<open>(nearIndex, nearDif)\<close>.
\<close>

fun nearestLoop :: "real \<Rightarrow> DiffractionPeak list \<Rightarrow> nat \<Rightarrow> nat \<times> real \<Rightarrow> nat \<times> real" where
  "nearestLoop angle [] refPeak near = near"
| "nearestLoop angle (r # rs) refPeak (nearIndex, nearDif) =
     (let curDif = \<bar>angle - getAngle r\<bar>
      in nearestLoop angle rs (Suc refPeak)
           (if curDif < nearDif then (refPeak, curDif) else (nearIndex, nearDif)))"

text \<open>
  The outer loop (lines 1354 to 1381) over the peaks of this pattern from index
  \<open>thisPeak\<close> on. The state is the local copy \<^verbatim>\<open>thisPeaks\<close> as far as it has been
  visited, \<^verbatim>\<open>_matchingPeaks\<close> and \<^verbatim>\<open>_unmatchedPeaks\<close>. Line 1357 starts the search
  with \<^verbatim>\<open>nearIndex = 0\<close> and
  \<^verbatim>\<open>nearDif = abs(thisPeaks[thisPeak].getAngle() - referencePeaks[thisPeak].getAngle())\<close>.
\<close>

fun matchLoop :: "DiffractionPeak list \<Rightarrow> nat \<Rightarrow> DiffractionPeak list
    \<Rightarrow> DiffractionPeak list \<times> nat list list \<times> nat list
    \<Rightarrow> error + DiffractionPeak list \<times> nat list list \<times> nat list" where
  "matchLoop referencePeaks thisPeak [] acc = Inr acc"
| "matchLoop referencePeaks thisPeak (p # ps) (visited, matching, unmatched) =
     bind (nth_opt referencePeaks thisPeak) (\<lambda>r0.
       case nearestLoop (getAngle p) (drop 1 referencePeaks) 1
              (0, \<bar>getAngle p - getAngle r0\<bar>) of
         (nearIndex, nearDif) \<Rightarrow>
           if nearDif > 15 / 100
           then matchLoop referencePeaks (Suc thisPeak) ps
                  (visited @ [p\<lparr>patternIndex := -1\<rparr>], matching, unmatched @ [thisPeak])
           else matchLoop referencePeaks (Suc thisPeak) ps
                  (visited @ [p\<lparr>patternIndex := int nearIndex\<rparr>],
                   matching[nearIndex := matching ! nearIndex @ [thisPeak]],
                   unmatched))"

text \<open>
  \<^verbatim>\<open>Diffraction::matchPeaksToReference\<close>, \<^verbatim>\<open>diffraction.cpp\<close> line 1333. The arguments
  are the results of \<^verbatim>\<open>_referencePattern.getDiffractedPeaks()\<close> and of
  \<^verbatim>\<open>getDiffractedPeaks()\<close>, which return copies. \<^verbatim>\<open>thisPeaks\<close> is a local variable:
  what the loop writes into it is dropped on return.
\<close>

definition Diffraction_matchPeaksToReference :: "DiffractionPeak list \<Rightarrow> DiffractionPeak list
    \<Rightarrow> 'a Diffraction_scheme \<Rightarrow> error + 'a Diffraction_scheme" where
  "Diffraction_matchPeaksToReference referencePeaks thisPeaks d =
     bind (matchLoop referencePeaks 0 thisPeaks
             ([], replicate (length referencePeaks) [], []))
       (\<lambda>(visited, matching, unmatched).
          Inr (d\<lparr> matchingPeaks := matching, unmatchedPeaks := unmatched \<rparr>))"

section \<open>R factor of integrated intensities\<close>

text \<open>The sum of the intensities of the peaks of this pattern with the given indices.\<close>

fun sumIntensities :: "DiffractionPeak list \<Rightarrow> nat list \<Rightarrow> real \<Rightarrow> error + real" where
  "sumIntensities thisPeaks [] acc = Inr acc"
| "sumIntensities thisPeaks (j # js) acc =
     bind (nth_opt thisPeaks j) (\<lambda>p. sumIntensities thisPeaks js (acc + getIntensity p))"

text \<open>
  Part 1 of \<^verbatim>\<open>getCurrentRFactor\<close> (\<^verbatim>\<open>diffraction.cpp\<close> lines 1787 to 1794):
  \<^verbatim>\<open>matchedIntensity[i]\<close> for the reference peaks from index \<open>i\<close> on, and
  \<^verbatim>\<open>unmatchedIntensity\<close>.
\<close>

fun matchedFrom :: "DiffractionPeak list \<Rightarrow> nat list list \<Rightarrow> nat \<Rightarrow> nat \<Rightarrow> error + real list" where
  "matchedFrom thisPeaks matching i 0 = Inr []"
| "matchedFrom thisPeaks matching i (Suc n) =
     bind (nth_opt matching i) (\<lambda>js.
     bind (sumIntensities thisPeaks js 0) (\<lambda>m.
     bind (matchedFrom thisPeaks matching (Suc i) n) (\<lambda>ms. Inr (m # ms))))"

fun unmatchedFrom :: "DiffractionPeak list \<Rightarrow> nat list \<Rightarrow> error + real list" where
  "unmatchedFrom thisPeaks [] = Inr []"
| "unmatchedFrom thisPeaks (k # ks) =
     bind (nth_opt thisPeaks k) (\<lambda>p.
     bind (unmatchedFrom thisPeaks ks) (\<lambda>us. Inr (getIntensity p # us)))"

definition gatherIntensities :: "DiffractionPeak list \<Rightarrow> DiffractionPeak list
    \<Rightarrow> 'a Diffraction_scheme \<Rightarrow> error + real list \<times> real list \<times> real list" where
  "gatherIntensities referencePeaks thisPeaks d =
     (if length (matchingPeaks d) = 0 then Inl Quit
      else bind (matchedFrom thisPeaks (matchingPeaks d) 0 (length referencePeaks))
             (\<lambda>matchedIntensity.
           bind (unmatchedFrom thisPeaks (unmatchedPeaks d)) (\<lambda>unmatchedIntensity.
             Inr (map getIntensity referencePeaks, matchedIntensity, unmatchedIntensity))))"

text \<open>\<^verbatim>\<open>std::inner_product(xs.begin(), xs.end(), ys.begin(), 0.0)\<close>.\<close>

definition inner_product :: "real list \<Rightarrow> real list \<Rightarrow> real" where
  "inner_product xs ys = foldl (\<lambda>acc (x, y). acc + x * y) 0 (zip xs ys)"

text \<open>
  The error of a trial scale, lines 1838 to 1842: the loop over the reference peaks and the
  loop over the unmatched peaks.
\<close>

definition absError :: "real list \<Rightarrow> real list \<Rightarrow> real list \<Rightarrow> real \<Rightarrow> real" where
  "absError referenceIntensity matchedIntensity unmatchedIntensity curScale =
     foldl (\<lambda>curError u. curError + \<bar>curScale * u\<bar>)
       (foldl (\<lambda>curError (r, m). curError + \<bar>r - curScale * m\<bar>) 0
          (zip referenceIntensity matchedIntensity))
       unmatchedIntensity"

text \<open>
  The scan for the optimal scale of \<open>DR_ABS\<close>, lines 1834 to 1846, over the pairs
  \<^verbatim>\<open>(referenceIntensity[i], matchedIntensity[i])\<close>; the state is
  \<^verbatim>\<open>(minimumError, _optimalScale)\<close> and starts at \<open>(1e100, 1.0)\<close>;
  \<open>initialMinimumError\<close> is the literal \<^verbatim>\<open>1e100\<close>.
\<close>

definition initialMinimumError :: real where
  "initialMinimumError = 10 ^ 100"

fun scaleScan :: "real list \<Rightarrow> real list \<Rightarrow> real list \<Rightarrow> (real \<times> real) list
    \<Rightarrow> real \<times> real \<Rightarrow> real \<times> real" where
  "scaleScan R M Ui [] st = st"
| "scaleScan R M Ui ((r, m) # rest) (minimumError, scale) =
     (if m = 0 then scaleScan R M Ui rest (minimumError, scale)
      else let curScale = r / m;
               curError = absError R M Ui curScale
           in scaleScan R M Ui rest
                (if curError < minimumError then (curError, curScale)
                 else (minimumError, scale)))"

text \<open>
  Parts 2 to 5 of \<^verbatim>\<open>getCurrentRFactor\<close>: the result is the R factor and the new value of
  \<^verbatim>\<open>_optimalScale\<close>. For a method other than \<open>DR_SQUARED\<close> and \<open>DR_ABS\<close> the code
  returns \<open>-1\<close> from part 2, before it touches \<^verbatim>\<open>_optimalScale\<close>. A division by a zero
  sum (\<^verbatim>\<open>_optimalScale /= denom\<close>, \<^verbatim>\<open>rFactor /= norm\<close>) gives a value that is not a
  finite number.
\<close>

definition rFactorFrom :: "Rmethod \<Rightarrow> real \<Rightarrow> real list \<Rightarrow> real list \<Rightarrow> real list
    \<Rightarrow> error + real \<times> real" where
  "rFactorFrom rmethod oldScale R M Ui =
     (case rmethod of
        DR_SQUARED \<Rightarrow>
          (let norm = foldl (\<lambda>acc r. acc + r * r) 0 R;
               denom = inner_product M M + inner_product Ui Ui
           in if denom = 0 \<or> norm = 0 then Inl NotFinite
              else let scale = inner_product M R / denom;
                       rFactor = foldl (\<lambda>acc u. acc + (scale * u)\<^sup>2)
                                   (foldl (\<lambda>acc (r, m). acc + (r - scale * m)\<^sup>2) 0 (zip R M))
                                   Ui
                   in Inr (rFactor / norm, scale))
      | DR_ABS \<Rightarrow>
          (let norm = foldl (+) 0 R;
               scale = snd (scaleScan R M Ui (zip R M) (initialMinimumError, 1))
           in if norm = 0 then Inl NotFinite
              else Inr (absError R M Ui scale / norm, scale))
      | DR_RIETVELD \<Rightarrow> Inr (- 1, oldScale))"

text \<open>\<^verbatim>\<open>Diffraction::getCurrentRFactor\<close>, \<^verbatim>\<open>diffraction.cpp\<close> line 1766.\<close>

definition getCurrentRFactor :: "DiffractionPeak list \<Rightarrow> DiffractionPeak list \<Rightarrow> Rmethod
    \<Rightarrow> 'a Diffraction_scheme \<Rightarrow> error + real \<times> 'a Diffraction_scheme" where
  "getCurrentRFactor referencePeaks thisPeaks rmethod d =
     bind (gatherIntensities referencePeaks thisPeaks d) (\<lambda>(R, M, Ui).
     bind (rFactorFrom rmethod (optimalScale d) R M Ui) (\<lambda>(rFactor, scale).
       Inr (rFactor, d\<lparr> optimalScale := scale \<rparr>)))"

text \<open>Every reference intensity multiplied by \<open>\<alpha>\<close>.\<close>

definition scaleReference :: "real \<Rightarrow> DiffractionPeak list \<Rightarrow> DiffractionPeak list" where
  "scaleReference \<alpha> referencePeaks =
     map (\<lambda>p. p\<lparr> peakIntensity := \<alpha> * peakIntensity p \<rparr>) referencePeaks"

section \<open>Calculated patterns\<close>

text \<open>The constructor \<^verbatim>\<open>Diffraction::Diffraction()\<close>, \<^verbatim>\<open>diffraction.h\<close> line 774.\<close>

definition newDiffraction :: Diffraction where
  "newDiffraction =
     \<lparr> patternType = PT_NONE, patternMethod = DM_NONE, patternWavelength = 15418 / 10000,
       minTwoTheta = 10, maxTwoTheta = 100, resolution = 2 / 100,
       matchingPeaks = [], unmatchedPeaks = [], optimalScale = 1 \<rparr>"

datatype RefinementParameters =
  RF_SCALE | RF_BASIS | RF_BACKGROUND | RF_SPECDISP | RF_ZEROSHIFT | RF_WFACTOR
  | RF_UVFACTORS | RF_BFACTORS | RF_TEXTURE | RF_POSITIONS

text \<open>
  The part of a symmetry operation that the engine reads: \<^verbatim>\<open>rotation()\<close> and
  \<^verbatim>\<open>translations()\<close> (the field \<open>translationList\<close>).
\<close>

record SymmetryOperation =
  rotation :: Matrix3D
  translationList :: "Vector3D list"

text \<open>
  \<^verbatim>\<open>class CalculatedPattern : public Diffraction\<close>. \<open>structureBasis\<close> is
  \<^verbatim>\<open>_structure->basis()\<close>, \<open>symmetryOperations\<close> is \<^verbatim>\<open>_symmetry->operations()\<close> and
  \<open>symmetryOrbits\<close> is \<^verbatim>\<open>_symmetry->orbits()\<close>; the array \<^verbatim>\<open>_shiftParameters[6]\<close> is a
  function of the index. The other members keep their names without the underscore.
\<close>

record CalculatedPattern = Diffraction +
  reflections :: "CalculatedPeak list"
  maxLatChange :: real
  structureBasis :: Basis
  symmetryOperations :: "SymmetryOperation list"
  symmetryOrbits :: "Orbit list"
  BFactors :: "real list"
  atfParams :: "real list list"
  minBFactor :: real
  maxBFactor :: real
  useChebyshev :: bool
  numBackground :: nat
  backgroundPolyStart :: int
  backgroundParameters :: "real list"
  shiftParameters :: "nat \<Rightarrow> real"
  U :: real
  V :: real
  W :: real
  eta0 :: real
  eta1 :: real
  eta2 :: real
  measurementAngles :: "real list"
  preferredOrientation :: Vector3D
  currentlyRefining :: "RefinementParameters set"

text \<open>
  The constructor \<^verbatim>\<open>CalculatedPattern()\<close>, \<^verbatim>\<open>diffraction.h\<close> line 645, for a pattern
  whose pointers hold the given structure and symmetry.
\<close>

definition newCalculatedPattern :: "Basis \<Rightarrow> SymmetryOperation list \<Rightarrow> Orbit list
    \<Rightarrow> CalculatedPattern" where
  "newCalculatedPattern basis operations orbits =
     Diffraction.extend newDiffraction
       (CalculatedPattern.fields [] (5 / 100) basis operations orbits [] []
          (1 / 10) 4 True 5 (- 1) [] (\<lambda>i. 0) 0 0 (3 / 10) (1 / 2) 0 0 [] (1, 0, 0) {})"

text \<open>
  \<^verbatim>\<open>CalculatedPattern::getDiffractedPeaks\<close>, \<^verbatim>\<open>diffraction.h\<close> line 603: a copy of the
  reflections, each cut down to its \<^verbatim>\<open>DiffractionPeak\<close> part.
\<close>

definition getDiffractedPeaks :: "'a CalculatedPattern_scheme \<Rightarrow> DiffractionPeak list" where
  "getDiffractedPeaks pat = map DiffractionPeak.truncate (reflections pat)"

text \<open>
  \<^verbatim>\<open>CalculatedPattern::matchPeaksToReference\<close>, \<^verbatim>\<open>diffraction.cpp\<close> line 1318: every
  reflection gets its own position as \<^verbatim>\<open>patternIndex\<close>, then the function of the base
  class runs on the copy that \<^verbatim>\<open>getDiffractedPeaks\<close> returns.
\<close>

definition numberReflections :: "CalculatedPeak list \<Rightarrow> CalculatedPeak list" where
  "numberReflections ps = map (\<lambda>(i, p). p\<lparr>patternIndex := int i\<rparr>) (enumerate 0 ps)"

definition CalculatedPattern_matchPeaksToReference :: "DiffractionPeak list
    \<Rightarrow> 'a CalculatedPattern_scheme \<Rightarrow> error + 'a CalculatedPattern_scheme" where
  "CalculatedPattern_matchPeaksToReference referencePeaks pat =
     (let pat1 = pat\<lparr> reflections := numberReflections (reflections pat) \<rparr>
      in Diffraction_matchPeaksToReference referencePeaks (getDiffractedPeaks pat1) pat1)"

section \<open>Enumeration of the reflections\<close>

text \<open>
  Modelled from the spec: the numeric helpers of \<^verbatim>\<open>num.h\<close>, which is not among the source
  files. \<^verbatim>\<open>Num<double>::round(x, 1)\<close> rounds to the nearest integer (the specification:
  ``round to integer''), \<^verbatim>\<open>Num<double>::ceil\<close> is the ceiling and
  \<^verbatim>\<open>Num<double>::abs\<close> the absolute value. \<^verbatim>\<open>Matrix3D::inverse\<close> is the inverse of
  a matrix, by cofactors. The theorems on the enumeration hold whatever values these
  helpers return.
\<close>

definition roundUnit :: "real \<Rightarrow> real" where
  "roundUnit x = of_int (round x)"

fun roundVec :: "Vector3D \<Rightarrow> Vector3D" where
  "roundVec (x, y, z) = (roundUnit x, roundUnit y, roundUnit z)"

fun inverse3 :: "Matrix3D \<Rightarrow> Matrix3D" where
  "inverse3 ((a, b, c), (d, e, f), (g, h, i)) =
     (let det = a * (e * i - f * h) - b * (d * i - f * g) + c * (d * h - e * g)
      in (((e * i - f * h) / det, (c * h - b * i) / det, (b * f - c * e) / det),
          ((f * g - d * i) / det, (a * i - c * g) / det, (c * d - a * f) / det),
          ((d * h - e * g) / det, (b * g - a * h) / det, (a * e - b * d) / det)))"

text \<open>
  The range of the indices, \<^verbatim>\<open>diffraction.cpp\<close> lines 810 to 816: \<open>vec\<close> is column \<open>i\<close>
  of the reduced inverse. The values are whole numbers.
\<close>

definition axisRange :: "real \<Rightarrow> Vector3D \<Rightarrow> int" where
  "axisRange maxMag vec = \<bar>\<lceil>maxMag / magnitude vec\<rceil>\<bar>"

definition hklRange :: "'a CalculatedPattern_scheme \<Rightarrow> int \<times> int \<times> int" where
  "hklRange pat =
     (let maxMag = 2 * sin (toRadians (maxTwoTheta pat / 2)) / patternWavelength pat
      in case transpose3 (reducedInverse (structureBasis pat)) of
           (c0, c1, c2) \<Rightarrow> (axisRange maxMag c0, axisRange maxMag c1, axisRange maxMag c2))"

text \<open>
  The symmetry operations of the reduced cell, lines 822 to 840: \<open>(P R Q)\<^sup>T\<close> for every
  rotation \<open>R\<close>, and the first operation equal to the identity removed.
\<close>

definition reducedOperations :: "'a CalculatedPattern_scheme \<Rightarrow> Matrix3D list" where
  "reducedOperations pat =
     (let P = transpose3 (unitToReduced (structureBasis pat));
          Q = inverse3 P
      in remove1 identity3
           (map (\<lambda>operation. transpose3 (mmul (mmul P (rotation operation)) Q))
              (symmetryOperations pat)))"

text \<open>
  The test of lines 876 to 885: the image \<open>symHKL\<close> comes before the seed \<open>redHKL\<close> in
  the lexicographic order with tolerance \<open>1e-4\<close>.
\<close>

fun comesBefore :: "Vector3D \<Rightarrow> Vector3D \<Rightarrow> bool" where
  "comesBefore (s0, s1, s2) (r0, r1, r2) =
     (if s0 < r0 - 1 / 10 ^ 4 then True
      else if \<bar>s0 - r0\<bar> < 1 / 10 ^ 4 then
        (if s1 < r1 - 1 / 10 ^ 4 then True
         else if \<bar>s1 - r1\<bar> < 1 / 10 ^ 4 then s2 < r2 - 1 / 10 ^ 4
         else False)
      else False)"

text \<open>The test of lines 892 to 894.\<close>

fun samePoint :: "Vector3D \<Rightarrow> Vector3D \<Rightarrow> bool" where
  "samePoint (a0, a1, a2) (s0, s1, s2) =
     (\<bar>a0 - s0\<bar> < 1 / 10 ^ 4 \<and> \<bar>a1 - s1\<bar> < 1 / 10 ^ 4 \<and> \<bar>a2 - s2\<bar> < 1 / 10 ^ 4)"

text \<open>
  The loop over the operations, lines 868 to 903; the state is \<^verbatim>\<open>(mult, equivPoints)\<close>.
  \<^verbatim>\<open>mult = 0\<close> leaves the loop.
\<close>

fun equivLoop :: "Matrix3D list \<Rightarrow> Vector3D \<Rightarrow> nat \<times> Vector3D list \<Rightarrow> nat \<times> Vector3D list" where
  "equivLoop [] redHKL st = st"
| "equivLoop (operation # rest) redHKL (mult, equivPoints) =
     (let symHKL = roundVec (mvmul operation redHKL)
      in if comesBefore symHKL redHKL then (0, equivPoints)
         else if list_ex (\<lambda>q. samePoint q symHKL) equivPoints
         then equivLoop rest redHKL (mult, equivPoints)
         else equivLoop rest redHKL (Suc mult, equivPoints @ [symHKL]))"

text \<open>
  The test for a systematic absence, lines 919 to 941: the value of \<^verbatim>\<open>found\<close>. The
  first argument is \<^verbatim>\<open>Symmetry::intrinsicTranslation\<close>, which is not among the source
  files.
\<close>

fun unchangedBy :: "Matrix3D \<Rightarrow> Vector3D \<Rightarrow> bool" where
  "unchangedBy R (h, k, l) =
     (case mvmul R (h, k, l) of (s0, s1, s2) \<Rightarrow>
        \<not> (\<bar>s0 - h\<bar> > 1 / 10 ^ 4 \<or> \<bar>s1 - k\<bar> > 1 / 10 ^ 4 \<or> \<bar>s2 - l\<bar> > 1 / 10 ^ 4))"

fun systematicAbsence :: "(Matrix3D \<Rightarrow> Vector3D \<Rightarrow> Vector3D) \<Rightarrow> SymmetryOperation list
    \<Rightarrow> Vector3D \<Rightarrow> bool" where
  "systematicAbsence intrinsicTranslation [] v = False"
| "systematicAbsence intrinsicTranslation (operation # rest) v =
     (if \<not> unchangedBy (rotation operation) v
      then systematicAbsence intrinsicTranslation rest v
      else if list_ex (\<lambda>t. let product = vdot (intrinsicTranslation (rotation operation) t) v
                            in \<bar>roundUnit product - product\<bar> > 1 / 10 ^ 4)
                (translationList operation)
      then True
      else systematicAbsence intrinsicTranslation rest v)"

text \<open>The angle of line 948, in degrees, and the window test of line 951.\<close>

definition seedTwoTheta :: "'a CalculatedPattern_scheme \<Rightarrow> Vector3D \<Rightarrow> real" where
  "seedTwoTheta pat v =
     2 * toDegrees (getDiffractionAngle (structureBasis pat) v (patternWavelength pat))"

definition outsideWindow :: "'a CalculatedPattern_scheme \<Rightarrow> real \<Rightarrow> bool" where
  "outsideWindow pat twoTheta = (twoTheta < minTwoTheta pat \<or> twoTheta > maxTwoTheta pat)"

text \<open>
  The body of the three nested loops, lines 864 to 956, for one seed: the peak that is
  appended to \<^verbatim>\<open>_reflections\<close>, if any. \<^verbatim>\<open>found\<close> is computed and not read: the
  statement \<^verbatim>\<open>if (found) continue;\<close> that followed it is commented out (lines 943 to
  945).
\<close>

definition seedPeak :: "(Matrix3D \<Rightarrow> Vector3D \<Rightarrow> Vector3D) \<Rightarrow> 'a CalculatedPattern_scheme
    \<Rightarrow> Vector3D \<Rightarrow> CalculatedPeak option" where
  "seedPeak intrinsicTranslation pat redHKL =
     (case equivLoop (reducedOperations pat) redHKL (1, [redHKL]) of
        (mult, equivPoints) \<Rightarrow>
          if mult = 0 then None
          else let convHKL = transpose3 (unitPointToReduced (structureBasis pat));
                   v = mvmul convHKL redHKL;
                   equivs = map (mvmul convHKL) equivPoints;
                   found = systematicAbsence intrinsicTranslation (symmetryOperations pat) v;
                   twoTheta = seedTwoTheta pat v
               in if outsideWindow pat twoTheta then None
                  else Some (newCalculatedPeak (patternMethod pat) (structureBasis pat)
                               (patternWavelength pat) v equivs))"

text \<open>The seeds in the order of the three nested loops, lines 861 to 863.\<close>

definition seedList :: "int \<times> int \<times> int \<Rightarrow> Vector3D list" where
  "seedList r = (case r of (r0, r1, r2) \<Rightarrow>
     concat (map (\<lambda>h. concat (map (\<lambda>k. map (\<lambda>l. (real_of_int h, real_of_int k, real_of_int l))
                                          [- r2 .. r2]) [- r1 .. r1])) [- r0 .. r0]))"

text \<open>
  \<^verbatim>\<open>CalculatedPeak::operator=\<close>, \<^verbatim>\<open>diffraction.h\<close> line 176: the assignment
  \<^verbatim>\<open>dst = rhs\<close> copies \<^verbatim>\<open>patternIndex\<close>, \<^verbatim>\<open>TwoThetaDeg\<close>, \<^verbatim>\<open>_twoThetaRad\<close>,
  \<^verbatim>\<open>peakIntensity\<close>, \<^verbatim>\<open>lpFactor\<close>, \<^verbatim>\<open>multiplicity\<close>, \<^verbatim>\<open>hkl\<close> and
  \<^verbatim>\<open>equivHKL\<close>. It copies neither \<^verbatim>\<open>method\<close> nor \<^verbatim>\<open>wavelength\<close> nor
  \<^verbatim>\<open>recipLatVecs\<close> (nor the two pointers): the destination keeps its own.
\<close>

definition assignPeak :: "CalculatedPeak \<Rightarrow> CalculatedPeak \<Rightarrow> CalculatedPeak" where
  "assignPeak dst rhs =
     dst\<lparr> patternIndex := patternIndex rhs,
          TwoThetaDeg := TwoThetaDeg rhs,
          twoThetaRad := twoThetaRad rhs,
          peakIntensity := peakIntensity rhs,
          lpFactor := lpFactor rhs,
          multiplicity := multiplicity rhs,
          hkl := hkl rhs,
          equivHKL := equivHKL rhs \<rparr>"

text \<open>
  \<^verbatim>\<open>std::sort(_reflections.begin(), _reflections.end())\<close>, line 959. The order is
  \<^verbatim>\<open>operator<\<close>, that is \<open>TwoThetaDeg\<close>. \<^verbatim>\<open>std::sort\<close> takes a peak out of the vector by
  constructing a copy of it (the class declares no constructor for copies, so the copy
  is memberwise) and puts a peak into an element of the vector by assigning to it with
  \<^verbatim>\<open>operator=\<close>. So every element ends with the assigned members of the peak that the
  order puts at its position, and with its own \<^verbatim>\<open>method\<close>, \<^verbatim>\<open>wavelength\<close> and
  \<^verbatim>\<open>recipLatVecs\<close>. The order that \<^verbatim>\<open>std::sort\<close> gives to peaks of equal angle is not
  specified; the model takes the order of a sort by insertion, and no theorem below reads
  the order of peaks of equal angle.
\<close>

definition sortReflections :: "CalculatedPeak list \<Rightarrow> CalculatedPeak list" where
  "sortReflections ps = map2 assignPeak ps (sort_key TwoThetaDeg ps)"

text \<open>
  \<^verbatim>\<open>CalculatedPattern::calculatePeakLocations\<close>, \<^verbatim>\<open>diffraction.cpp\<close> line 802.
\<close>

definition calculatePeakLocations :: "(Matrix3D \<Rightarrow> Vector3D \<Rightarrow> Vector3D)
    \<Rightarrow> 'a CalculatedPattern_scheme \<Rightarrow> 'a CalculatedPattern_scheme" where
  "calculatePeakLocations intrinsicTranslation pat =
     pat\<lparr> reflections :=
       sortReflections
         (List.map_filter (seedPeak intrinsicTranslation pat) (seedList (hklRange pat))) \<rparr>"

section \<open>Synthesis of the profile\<close>

text \<open>
  A \<^verbatim>\<open>double\<close> that may be NaN. An arithmetic operation with a NaN operand gives NaN,
  a comparison with a NaN operand is false, and \<^verbatim>\<open>sqrt\<close> of a negative number is NaN.
\<close>

datatype dbl = Fin real | NaN

fun lift1 :: "(real \<Rightarrow> real) \<Rightarrow> dbl \<Rightarrow> dbl" where
  "lift1 f (Fin x) = Fin (f x)"
| "lift1 f NaN = NaN"

fun lift2 :: "(real \<Rightarrow> real \<Rightarrow> real) \<Rightarrow> dbl \<Rightarrow> dbl \<Rightarrow> dbl" where
  "lift2 f (Fin x) (Fin y) = Fin (f x y)"
| "lift2 f a b = NaN"

fun dless :: "dbl \<Rightarrow> dbl \<Rightarrow> bool" where
  "dless (Fin x) (Fin y) = (x < y)"
| "dless a b = False"

fun dge :: "dbl \<Rightarrow> dbl \<Rightarrow> bool" where
  "dge (Fin x) (Fin y) = (x \<ge> y)"
| "dge a b = False"

definition dsqrt :: "real \<Rightarrow> dbl" where
  "dsqrt x = (if x < 0 then NaN else Fin (sqrt x))"

text \<open>
  The background of one angle, \<^verbatim>\<open>diffraction.cpp\<close> lines 1136 to 1152. In
  \<open>chebyshevTerms\<close> the two reals after the coefficients are \<^verbatim>\<open>chebyshev[t-1]\<close> and
  \<^verbatim>\<open>chebyshev[t-2]\<close>; in \<open>polynomialTerms\<close> the real after the coefficients is \<open>x\<close>.
\<close>

fun chebyshevTerms :: "real \<Rightarrow> real list \<Rightarrow> real \<Rightarrow> real \<Rightarrow> real \<Rightarrow> real" where
  "chebyshevTerms x [] c1 c2 output = output"
| "chebyshevTerms x (b # bs) c1 c2 output =
     (let c = 2 * x * c1 - c2 in chebyshevTerms x bs c c1 (output + b * c))"

fun polynomialTerms :: "real \<Rightarrow> real list \<Rightarrow> real \<Rightarrow> real \<Rightarrow> real" where
  "polynomialTerms t [] x output = output"
| "polynomialTerms t (b # bs) x output = polynomialTerms t bs (x * t) (output + b * x)"

definition backgroundAt :: "'a CalculatedPattern_scheme \<Rightarrow> real \<Rightarrow> real" where
  "backgroundAt pat t =
     (if useChebyshev pat then
        (case backgroundParameters pat of
           [] \<Rightarrow> 0
         | [b0] \<Rightarrow> b0
         | b0 # b1 # bs \<Rightarrow>
             (let x = 2 * (t - minTwoTheta pat) / (maxTwoTheta pat - minTwoTheta pat) - 1
              in chebyshevTerms x bs x 1 (b0 + b1 * x)))
      else polynomialTerms t (backgroundParameters pat) (t powi backgroundPolyStart pat) 0)"

text \<open>
  \<^verbatim>\<open>CalculatedPattern::generateBackgroundSignal\<close>, \<^verbatim>\<open>diffraction.cpp\<close> line 1124. The
  array \<^verbatim>\<open>chebyshev\<close> has \<^verbatim>\<open>_numBackground\<close> elements; element 0 is written before the
  loop and the elements up to the number of background parameters inside it.
\<close>

definition generateBackgroundSignal :: "'a CalculatedPattern_scheme \<Rightarrow> real list
    \<Rightarrow> error + real list" where
  "generateBackgroundSignal pat twoTheta =
     (if backgroundParameters pat = [] then Inr (replicate (length twoTheta) 0)
      else if numBackground pat = 0
              \<or> (twoTheta \<noteq> [] \<and> useChebyshev pat \<and> 2 \<le> length (backgroundParameters pat)
                  \<and> numBackground pat < length (backgroundParameters pat))
      then Inl OutOfRange
      else Inr (map (backgroundAt pat) twoTheta))"

text \<open>
  \<^verbatim>\<open>tan\<close> of \<^verbatim>\<open>cmath\<close>. No double is a pole of the tangent: at the half angle
  \<^verbatim>\<open>M_PI / 2\<close>, which \<^verbatim>\<open>getDiffractionAngle\<close> returns for an argument of \<^verbatim>\<open>asin\<close>
  above 1, the program computes \<^verbatim>\<open>tan(M_PI / 2) = 16331239353195370\<close>, and the opposite
  at \<^verbatim>\<open>-M_PI / 2\<close>. The tangent of HOL is 0 at its poles, so the model gives the two
  poles that a half angle can be the value that the program computes there.
\<close>

definition tanHalfPi :: real where
  "tanHalfPi = 16331239353195370"

definition tanDouble :: "real \<Rightarrow> real" where
  "tanDouble x = (if x = pi / 2 then tanHalfPi
                  else if x = - pi / 2 then - tanHalfPi
                  else tan x)"

text \<open>
  The Caglioti expression of lines 1077 and 1078, whose square root is \<open>H\<close>, and the shift
  of the centre of lines 1085 to 1087.
\<close>

definition cagliotiHsq :: "'a CalculatedPattern_scheme \<Rightarrow> CalculatedPeak \<Rightarrow> real" where
  "cagliotiHsq pat p =
     W pat + tanDouble (getAngleRadians p / 2)
       * (V pat + U pat * tanDouble (getAngleRadians p / 2))"

definition peakShift :: "'a CalculatedPattern_scheme \<Rightarrow> real \<Rightarrow> real" where
  "peakShift pat centerRad =
     shiftParameters pat 0 / tanDouble centerRad + shiftParameters pat 1 / sin centerRad
     + shiftParameters pat 2 / tanDouble (centerRad / 2) + shiftParameters pat 3 * sin centerRad
     + shiftParameters pat 4 * cos centerRad + shiftParameters pat 5"

text \<open>
  \<^verbatim>\<open>lower_bound(twoTheta.begin(), twoTheta.end(), minAngle) - twoTheta.begin()\<close>: the
  index of the first angle that is not less than \<open>minAngle\<close>, for a list of ascending
  angles.
\<close>

definition lowerBound :: "real list \<Rightarrow> dbl \<Rightarrow> nat" where
  "lowerBound twoTheta minAngle = length (takeWhile (\<lambda>t. dless (Fin t) minAngle) twoTheta)"

text \<open>
  \<^verbatim>\<open>twoTheta[i]\<close>. The operator \<^verbatim>\<open>[]\<close> of \<^verbatim>\<open>std::vector\<close> does not check the index;
  the loop of line 1098 tests no bound and the loop of line 1102 tests the bound after it
  has read the angle, so that the program reads the double behind the last angle whenever
  a profile reaches the end of the grid. What the memory holds behind the grid is the
  parameter \<open>beyond\<close>, a function of the index; the theorems hold for every \<open>beyond\<close>.
\<close>

definition readAngle :: "(nat \<Rightarrow> dbl) \<Rightarrow> real list \<Rightarrow> nat \<Rightarrow> dbl" where
  "readAngle beyond twoTheta i = (if i < length twoTheta then Fin (twoTheta ! i) else beyond i)"

text \<open>
  \<^verbatim>\<open>while (twoTheta[++a] < minAngle) continue;\<close>, line 1098: the index is incremented
  before the angle is read, and nothing bounds the index. The loop ends at the first
  index (in the grid or behind it) whose double is not less than \<open>minAngle\<close>; if there
  is none it does not end, which is the value \<open>None\<close>.
\<close>

partial_function (option) skipBelow :: "(nat \<Rightarrow> dbl) \<Rightarrow> real list \<Rightarrow> dbl \<Rightarrow> nat
    \<Rightarrow> nat option" where
  "skipBelow beyond twoTheta minAngle a =
     (if dless (readAngle beyond twoTheta (Suc a)) minAngle
      then skipBelow beyond twoTheta minAngle (Suc a)
      else Some (Suc a))"

text \<open>
  The value added to \<^verbatim>\<open>output[a]\<close> at the angle \<open>t\<close>, lines 1103 to 1106, for the width
  \<open>H\<close>.
\<close>

definition profileAt :: "real \<Rightarrow> real \<Rightarrow> real \<Rightarrow> dbl \<Rightarrow> real \<Rightarrow> dbl" where
  "profileAt intensity eta center H t =
     lift1 (\<lambda>h. let Cg = 4 * ln 2;
                    gPrefactor = sqrt Cg / sqrt pi / h;
                    lPrefactor = 2 / pi / h;
                    x = ((t - center) / h)\<^sup>2;
                    gaussian = gPrefactor * exp (- Cg * x);
                    lorentzian = lPrefactor / (1 + 4 * x)
                in intensity * (eta * gaussian + (1 - eta) * lorentzian)) H"

text \<open>
  \<^verbatim>\<open>while (twoTheta[a] < maxAngle && a < twoTheta.size())\<close>, lines 1102 to 1108: the
  angle is read before the index is compared with the size, and \<^verbatim>\<open>output\<close> is written
  only at an index inside the grid.
\<close>

function addProfile :: "(nat \<Rightarrow> dbl) \<Rightarrow> real list \<Rightarrow> (real \<Rightarrow> dbl) \<Rightarrow> dbl \<Rightarrow> nat
    \<Rightarrow> dbl list \<Rightarrow> dbl list" where
  "addProfile beyond twoTheta profile maxAngle a output =
     (if dless (readAngle beyond twoTheta a) maxAngle \<and> a < length twoTheta
      then addProfile beyond twoTheta profile maxAngle (Suc a)
             (output[a := lift2 (+) (output ! a) (profile (twoTheta ! a))])
      else output)"
  by pat_completeness auto
termination
  by (relation "measure (\<lambda>(beyond, twoTheta, profile, maxAngle, a, output). length twoTheta - a)")
    auto

text \<open>The body of the loop over the reflections, lines 1074 to 1108, for one reflection.\<close>

definition peakSignal :: "(nat \<Rightarrow> dbl) \<Rightarrow> 'a CalculatedPattern_scheme \<Rightarrow> real list
    \<Rightarrow> CalculatedPeak \<Rightarrow> dbl list \<Rightarrow> error + dbl list" where
  "peakSignal beyond pat twoTheta p output =
     (let center0 = getAngle p;
          centerRad = getAngleRadians p;
          H = dsqrt (cagliotiHsq pat p);
          eta = eta0 pat + center0 * (eta1 pat + center0 * eta2 pat);
          center = center0 + peakShift pat centerRad;
          minAngle = lift2 (-) (Fin center) (lift2 (*) (Fin 6) H);
          maxAngle = lift2 (+) (Fin center) (lift2 (*) (Fin 6) H)
      in if dge minAngle (Fin (maxTwoTheta pat)) then Inr output
         else case skipBelow beyond twoTheta minAngle (lowerBound twoTheta minAngle) of
                None \<Rightarrow> Inl NoReturn
              | Some a \<Rightarrow>
                  Inr (addProfile beyond twoTheta (profileAt (getIntensity p) eta center H)
                         maxAngle a output))"

fun peakSignals :: "(nat \<Rightarrow> dbl) \<Rightarrow> 'a CalculatedPattern_scheme \<Rightarrow> real list
    \<Rightarrow> CalculatedPeak list \<Rightarrow> dbl list \<Rightarrow> error + dbl list" where
  "peakSignals beyond pat twoTheta [] output = Inr output"
| "peakSignals beyond pat twoTheta (p # ps) output =
     bind (peakSignal beyond pat twoTheta p output) (peakSignals beyond pat twoTheta ps)"

text \<open>\<^verbatim>\<open>CalculatedPattern::generatePeakSignal\<close>, \<^verbatim>\<open>diffraction.cpp\<close> line 1065.\<close>

definition generatePeakSignal :: "(nat \<Rightarrow> dbl) \<Rightarrow> 'a CalculatedPattern_scheme \<Rightarrow> real list
    \<Rightarrow> error + dbl list" where
  "generatePeakSignal beyond pat twoTheta =
     peakSignals beyond pat twoTheta (reflections pat) (replicate (length twoTheta) (Fin 0))"

text \<open>\<^verbatim>\<open>CalculatedPattern::getDiffractedIntensity\<close>, \<^verbatim>\<open>diffraction.cpp\<close> line 1051.\<close>

definition getDiffractedIntensity :: "(nat \<Rightarrow> dbl) \<Rightarrow> 'a CalculatedPattern_scheme \<Rightarrow> real list
    \<Rightarrow> error + dbl list" where
  "getDiffractedIntensity beyond pat twoTheta =
     bind (generateBackgroundSignal pat twoTheta) (\<lambda>background.
     bind (generatePeakSignal beyond pat twoTheta) (\<lambda>signal.
       Inr (map (\<lambda>(b, s). lift2 (+) (Fin b) s) (zip background signal))))"

section \<open>Staged Rietveld refinement\<close>

text \<open>\<^verbatim>\<open>CalculatedPattern::willRefine\<close>, \<^verbatim>\<open>diffraction.cpp\<close> line 103.\<close>

definition willRefine :: "RefinementParameters \<Rightarrow> RefinementParameters set \<Rightarrow> bool" where
  "willRefine parameter toRefine = (parameter \<in> toRefine)"

text \<open>
  \<^verbatim>\<open>CalculatedPattern::calculatePeakIntensities\<close>, \<^verbatim>\<open>diffraction.cpp\<close> line 974;
  \<open>updateReflection\<close> is the body of its loop, for one reflection.
\<close>

definition updateReflection :: "'a CalculatedPattern_scheme \<Rightarrow> CalculatedPeak
    \<Rightarrow> error + CalculatedPeak" where
  "updateReflection pat p =
     updateCalculatedIntensity (symmetryOrbits pat) (BFactors pat) (atfParams pat)
       (preferredOrientation pat) (magnitude (preferredOrientation pat))
       (if willRefine RF_BASIS (currentlyRefining pat)
        then updatePeakPosition (structureBasis pat) p else p)"

fun updateReflections :: "'a CalculatedPattern_scheme \<Rightarrow> CalculatedPeak list
    \<Rightarrow> error + CalculatedPeak list" where
  "updateReflections pat [] = Inr []"
| "updateReflections pat (p # ps) =
     bind (updateReflection pat p)
       (\<lambda>p'. bind (updateReflections pat ps) (\<lambda>ps'. Inr (p' # ps')))"

definition calculatePeakIntensities :: "'a CalculatedPattern_scheme
    \<Rightarrow> error + 'a CalculatedPattern_scheme" where
  "calculatePeakIntensities pat =
     bind (updateReflections pat (reflections pat)) (\<lambda>ps. Inr (pat\<lparr> reflections := ps \<rparr>))"

text \<open>
  The numerical kernels of the driver, for a fixed reference pattern. They are parameters
  of the model: \<^verbatim>\<open>runRefinement\<close> and \<^verbatim>\<open>guessBackgroundParameters\<close> call the dlib
  library (the box-constrained minimiser, the QR solver), and the two other guesses read
  the measured profile of the reference.
  \<^item> \<open>scaleGuess\<close>: the quotient of lines 259 and 260, the largest reference intensity
    over the largest calculated intensity;
  \<^item> \<open>runRefinement\<close>: \<^verbatim>\<open>runRefinement(&referencePattern, true)\<close>, the refined pattern
    and the R factor (\<open>DR_ABS\<close>) it returns;
  \<^item> \<open>guessBackgroundParameters\<close> and \<open>guessPeakWidthParameter\<close>: the functions of
    these names.
\<close>

record RietveldKernels =
  scaleGuess :: "CalculatedPattern \<Rightarrow> error + real"
  runRefinement :: "CalculatedPattern \<Rightarrow> error + CalculatedPattern \<times> real"
  guessBackgroundParameters :: "CalculatedPattern \<Rightarrow> error + real list"
  guessPeakWidthParameter :: "CalculatedPattern \<Rightarrow> error + real"

text \<open>
  One call of \<^verbatim>\<open>runRefinement\<close>. The state of the driver is the pattern together with
  the log of the calls made so far: each entry is the value of \<^verbatim>\<open>_currentlyRefining\<close> at
  the call. \<^verbatim>\<open>runRefinement\<close> writes neither \<^verbatim>\<open>_currentlyRefining\<close> nor
  \<^verbatim>\<open>_maxLatChange\<close>, so the model keeps their values.
\<close>

type_synonym DriverState = "CalculatedPattern \<times> RefinementParameters set list"

definition refineCall :: "RietveldKernels \<Rightarrow> DriverState \<Rightarrow> error + DriverState \<times> real" where
  "refineCall K st = (case st of (pat, calls) \<Rightarrow>
     bind (runRefinement K pat) (\<lambda>(pat', curR).
       Inr ((pat'\<lparr> currentlyRefining := currentlyRefining pat,
                   maxLatChange := maxLatChange pat \<rparr>,
             calls @ [currentlyRefining pat]), curR)))"

text \<open>
  \<^verbatim>\<open>rietveldRefinement\<close> up to the end of the stage of the peak width,
  \<^verbatim>\<open>diffraction.cpp\<close> lines 243 to 331. The sets written out are the values of
  \<^verbatim>\<open>refinedSoFar\<close>. The result is the state and the value of \<^verbatim>\<open>curR\<close> that line 337
  tests.
\<close>

definition stagesToWidth :: "RietveldKernels \<Rightarrow> CalculatedPattern
    \<Rightarrow> error + DriverState \<times> real" where
  "stagesToWidth K pat0 =
     bind (calculatePeakIntensities (pat0\<lparr> currentlyRefining := {} \<rparr>)) (\<lambda>pat1.
     bind (scaleGuess K pat1) (\<lambda>guess.
     bind (refineCall K
             (pat1\<lparr> currentlyRefining := {RF_SCALE}, optimalScale := guess \<rparr>, []))
       (\<lambda>((pat2, calls2), curR).
     bind (refineCall K (pat2\<lparr> currentlyRefining := {RF_SPECDISP} \<rparr>, calls2))
       (\<lambda>((pat3, calls3), curR).
     bind (refineCall K
             (pat3\<lparr> currentlyRefining :=
                      currentlyRefining pat3 \<union> {RF_SCALE, RF_SPECDISP} \<rparr>, calls3))
       (\<lambda>((pat4, calls4), curR).
     bind (guessBackgroundParameters K
             (pat4\<lparr> currentlyRefining := {RF_BACKGROUND, RF_SCALE} \<rparr>)) (\<lambda>background.
     bind (refineCall K
             (pat4\<lparr> currentlyRefining := {RF_BACKGROUND, RF_SCALE},
                    backgroundParameters := background \<rparr>, calls4))
       (\<lambda>((pat5, calls5), curR).
     bind (refineCall K
             (pat5\<lparr> currentlyRefining :=
                      currentlyRefining pat5 \<union> {RF_SCALE, RF_SPECDISP, RF_BACKGROUND} \<rparr>,
              calls5))
       (\<lambda>((pat6, calls6), curR).
     bind (if maxLatChange pat6 > 0
           then bind (refineCall K (pat6\<lparr> currentlyRefining := {RF_BASIS} \<rparr>, calls6))
                  (\<lambda>((pat7, calls7), curR).
                     Inr ((pat7\<lparr> currentlyRefining :=
                                  currentlyRefining pat7 \<union> currentlyRefining pat6 \<rparr>,
                           calls7),
                          {RF_SCALE, RF_SPECDISP, RF_BACKGROUND, RF_BASIS}))
           else Inr ((pat6, calls6), {RF_SCALE, RF_SPECDISP, RF_BACKGROUND}))
       (\<lambda>((pat8, calls8), refinedSoFar).
     bind (guessPeakWidthParameter K pat8) (\<lambda>width.
     bind (refineCall K
             (pat8\<lparr> W := width,
                    currentlyRefining := insert RF_WFACTOR (currentlyRefining pat8) \<rparr>,
              calls8))
       (\<lambda>((pat9, calls9), curR).
     refineCall K
       (pat9\<lparr> currentlyRefining :=
                currentlyRefining pat9 \<union> insert RF_WFACTOR refinedSoFar \<rparr>,
        calls9))))))))))))"

text \<open>
  The stages after the test of line 337, lines 344 to 382: atomic positions if requested,
  texture, B factors if requested, the broadening factors \<open>U\<close> and \<open>V\<close>, the zero shift.
\<close>

definition stageOf :: "RietveldKernels \<Rightarrow> RefinementParameters \<Rightarrow> DriverState
    \<Rightarrow> error + DriverState" where
  "stageOf K parameter st = (case st of (pat, calls) \<Rightarrow>
     bind (refineCall K
             (pat\<lparr> currentlyRefining := insert parameter (currentlyRefining pat) \<rparr>, calls))
       (\<lambda>(st', curR). Inr st'))"

definition stagesAfterWidth :: "RietveldKernels \<Rightarrow> RefinementParameters set \<Rightarrow> DriverState
    \<Rightarrow> error + DriverState" where
  "stagesAfterWidth K toRefine st =
     bind (if willRefine RF_POSITIONS toRefine then stageOf K RF_POSITIONS st else Inr st)
       (\<lambda>st1.
     bind (stageOf K RF_TEXTURE st1) (\<lambda>st2.
     bind (if willRefine RF_BFACTORS toRefine then stageOf K RF_BFACTORS st2 else Inr st2)
       (\<lambda>st3.
     bind (stageOf K RF_UVFACTORS st3) (\<lambda>st4.
     stageOf K RF_ZEROSHIFT st4))))"

text \<open>
  \<^verbatim>\<open>CalculatedPattern::rietveldRefinement\<close>, \<^verbatim>\<open>diffraction.cpp\<close> line 235. Lines 337
  to 342 return when \<^verbatim>\<open>curR > 0.9\<close>.
\<close>

definition rietveldRefinement :: "RietveldKernels \<Rightarrow> RefinementParameters set
    \<Rightarrow> CalculatedPattern \<Rightarrow> error + DriverState" where
  "rietveldRefinement K toRefine pat0 =
     bind (stagesToWidth K pat0) (\<lambda>(st, curR).
       if curR > 9 / 10 then Inr st else stagesAfterWidth K toRefine st)"

text \<open>The parameter kinds of the stages that follow the stage of the peak width.\<close>

definition laterKinds :: "RefinementParameters set" where
  "laterKinds = {RF_POSITIONS, RF_TEXTURE, RF_BFACTORS, RF_UVFACTORS, RF_ZEROSHIFT}"

section \<open>Experimental patterns\<close>

text \<open>
  \<^verbatim>\<open>class ExperimentalPattern : public Diffraction\<close>, the members
  \<^verbatim>\<open>_continuousTwoTheta\<close>, \<^verbatim>\<open>_continuousIntensity\<close> and \<^verbatim>\<open>_diffractionPeaks\<close>.
\<close>

record ExperimentalPattern = Diffraction +
  continuousTwoTheta :: "real list"
  continuousIntensity :: "real list"
  diffractionPeaks :: "DiffractionPeak list"

text \<open>\<^verbatim>\<open>ExperimentalPattern::clear\<close>, \<^verbatim>\<open>diffraction.h\<close> line 423.\<close>

definition clearExperimental :: "ExperimentalPattern \<Rightarrow> ExperimentalPattern" where
  "clearExperimental pat =
     pat\<lparr> patternType := PT_NONE, matchingPeaks := [], unmatchedPeaks := [],
           continuousIntensity := [], continuousTwoTheta := [], diffractionPeaks := [] \<rparr>"

text \<open>
  The numerical kernels of the processing of a raw pattern. They are parameters of the
  model: the fits and the search for the maximum call \<^verbatim>\<open>Fit::LM\<close> and
  \<^verbatim>\<open>Solve::maximize\<close>, which are not among the source files, and the integration calls
  the dlib library.
  \<^item> \<open>locatePeaks\<close>: \<^verbatim>\<open>smoothData\<close>, \<^verbatim>\<open>removeBackground\<close> and \<^verbatim>\<open>locatePeaks\<close>
    applied to the copies of the sorted data; the result is \<^verbatim>\<open>peakTwoTheta\<close> and
    \<^verbatim>\<open>peakIntensity\<close>;
  \<^item> \<open>fitPeaks\<close>: parts 1, 3 and 4 of \<^verbatim>\<open>getPeakIntensities\<close>, the pseudo-Voigt
    parameters \<^verbatim>\<open>psParams\<close> of every peak;
  \<^item> \<open>maximize\<close>: the value of \<^verbatim>\<open>location\<close> that \<^verbatim>\<open>Solve::maximize\<close> returns for
    the parameters of one peak;
  \<^item> \<open>integrate\<close>: \<^verbatim>\<open>dlib::integrate_function_adapt_simp\<close> of the pseudo-Voigt of
    one peak between \<^verbatim>\<open>groupMin\<close> and \<^verbatim>\<open>groupMax\<close>.
\<close>

record ExperimentalKernels =
  locatePeaks :: "real list \<Rightarrow> real list \<Rightarrow> error + real list list \<times> real list list"
  fitPeaks :: "real list list \<Rightarrow> real list list \<Rightarrow> nat list list \<Rightarrow> real list list"
  maximize :: "real list \<Rightarrow> real"
  integrate :: "real list \<Rightarrow> real \<Rightarrow> real \<Rightarrow> real"

text \<open>
  Part 2 of \<^verbatim>\<open>getPeakIntensities\<close>, \<^verbatim>\<open>diffraction.cpp\<close> lines 2325 to 2338: the
  groups of peaks that are fitted together. The loop runs over the peaks from 1 on and
  starts with the single group \<open>[0]\<close>.
\<close>

fun groupLoop :: "real list list \<Rightarrow> nat list \<Rightarrow> nat list list \<Rightarrow> nat list list" where
  "groupLoop peakTwoTheta [] peakGroup = peakGroup"
| "groupLoop peakTwoTheta (peak # rest) peakGroup =
     (let peakStart = hd (peakTwoTheta ! peak);
          lastGroupEnd = last (peakTwoTheta ! last (last peakGroup))
      in if peakStart - lastGroupEnd < 1 / 10
         then groupLoop peakTwoTheta rest (butlast peakGroup @ [last peakGroup @ [peak]])
         else groupLoop peakTwoTheta rest (peakGroup @ [[peak]]))"

definition peakGroups :: "real list list \<Rightarrow> nat list list" where
  "peakGroups peakTwoTheta = groupLoop peakTwoTheta [1 ..< length peakTwoTheta] [[0]]"

text \<open>
  The two tests of lines 2427 and 2436 on the integrated intensity and on the location of
  the maximum of one peak; \<open>lo\<close> and \<open>hi\<close> are \<^verbatim>\<open>_minTwoTheta\<close> and \<^verbatim>\<open>_maxTwoTheta\<close>.
\<close>

definition failsChecks :: "ExperimentalKernels \<Rightarrow> real \<Rightarrow> real \<Rightarrow> real list \<Rightarrow> real \<Rightarrow> real
    \<Rightarrow> bool" where
  "failsChecks K lo hi params groupMin groupMax =
     (integrate K params groupMin groupMax < 0
      \<or> maximize K params < lo \<or> maximize K params > hi)"

text \<open>
  Part 5, lines 2409 to 2448: the inner loop over the peaks of one group and the outer loop
  over the groups. The result is \<^verbatim>\<open>_diffractionPeaks\<close> when the loop is left and the
  exception or error that left it, if any; \<^verbatim>\<open>throw 10\<close> is \<open>Thrown 10\<close>.
\<close>

fun integratePeaks :: "ExperimentalKernels \<Rightarrow> real \<Rightarrow> real \<Rightarrow> real list list \<Rightarrow> real \<Rightarrow> real
    \<Rightarrow> nat list \<Rightarrow> DiffractionPeak list \<Rightarrow> DiffractionPeak list \<times> error option" where
  "integratePeaks K lo hi psParams groupMin groupMax [] peaks = (peaks, None)"
| "integratePeaks K lo hi psParams groupMin groupMax (curPeak # rest) peaks =
     (case nth_opt psParams curPeak of
        Inl e \<Rightarrow> (peaks, Some e)
      | Inr params \<Rightarrow>
          (let location = maximize K params;
               intensity = integrate K params groupMin groupMax
           in if intensity < 0 then (peaks, Some (Thrown 10))
              else if location < lo \<or> location > hi then (peaks, Some (Thrown 10))
              else integratePeaks K lo hi psParams groupMin groupMax rest
                     (peaks @ [newDiffractionPeak location intensity])))"

fun integrateGroups :: "ExperimentalKernels \<Rightarrow> real \<Rightarrow> real \<Rightarrow> real list list
    \<Rightarrow> real list list \<Rightarrow> nat list list \<Rightarrow> DiffractionPeak list
    \<Rightarrow> DiffractionPeak list \<times> error option" where
  "integrateGroups K lo hi peakTwoTheta psParams [] peaks = (peaks, None)"
| "integrateGroups K lo hi peakTwoTheta psParams (g # gs) peaks =
     (let groupMin = hd (peakTwoTheta ! hd g);
          groupMax = last (peakTwoTheta ! last g)
      in case integratePeaks K lo hi psParams groupMin groupMax g peaks of
           (peaks', None) \<Rightarrow> integrateGroups K lo hi peakTwoTheta psParams gs peaks'
         | (peaks', Some e) \<Rightarrow> (peaks', Some e))"

text \<open>
  What parts 0 and 1 read: every peak has at least one point, and there is an intensity
  for every angle of every peak. Without a peak, the group \<open>[0]\<close> refers to a peak that
  does not exist.
\<close>

definition wellShaped :: "real list list \<Rightarrow> real list list \<Rightarrow> bool" where
  "wellShaped peakTwoTheta peakIntensities =
     (peakTwoTheta \<noteq> [] \<and> \<not> list_ex (\<lambda>p. p = []) peakTwoTheta
      \<and> length peakTwoTheta \<le> length peakIntensities
      \<and> list_all (\<lambda>(angles, intensities). length angles \<le> length intensities)
           (zip peakTwoTheta peakIntensities))"

text \<open>
  \<^verbatim>\<open>ExperimentalPattern::getPeakIntensities\<close>, \<^verbatim>\<open>diffraction.cpp\<close> line 2273: the
  pattern when the function is left, and the exception or error that left it, if any.
\<close>

definition getPeakIntensities :: "ExperimentalKernels \<Rightarrow> real list list \<Rightarrow> real list list
    \<Rightarrow> ExperimentalPattern \<Rightarrow> ExperimentalPattern \<times> error option" where
  "getPeakIntensities K peakTwoTheta peakIntensities pat =
     (if \<not> wellShaped peakTwoTheta peakIntensities
      then (pat\<lparr> diffractionPeaks := [] \<rparr>, Some OutOfRange)
      else let peakGroup = peakGroups peakTwoTheta;
               psParams = fitPeaks K peakTwoTheta peakIntensities peakGroup
           in case integrateGroups K (minTwoTheta pat) (maxTwoTheta pat) peakTwoTheta psParams
                     peakGroup []
              of (peaks, thrown) \<Rightarrow> (pat\<lparr> diffractionPeaks := peaks \<rparr>, thrown))"

text \<open>
  The spacing of the sorted angles, lines 1507 to 1518: the pair is \<^verbatim>\<open>(minDif, maxDif)\<close>.
  Line 1521 takes the data for peaks that are already integrated when the spacing is
  uneven or zero and there are fewer than 500 points.
\<close>

fun spacingLoop :: "real list \<Rightarrow> real \<times> real \<Rightarrow> real \<times> real" where
  "spacingLoop (x # y # rest) (minDif, maxDif) =
     (let curDif = y - x
      in spacingLoop (y # rest)
           (if curDif < minDif then (curDif, maxDif)
            else if curDif > maxDif then (minDif, curDif)
            else (minDif, maxDif)))"
| "spacingLoop xs acc = acc"

definition spacing :: "real list \<Rightarrow> real \<times> real" where
  "spacing twoTheta =
     spacingLoop twoTheta
       (case twoTheta of x # y # rest \<Rightarrow> (y - x, y - x) | _ \<Rightarrow> (0, 0))"

definition alreadyProcessed :: "real list \<Rightarrow> bool" where
  "alreadyProcessed twoTheta = (case spacing twoTheta of (minDif, maxDif) \<Rightarrow>
     (maxDif > 11 / 10 * minDif \<or> maxDif = 0) \<and> length twoTheta < 500)"

text \<open>
  The data after the sort of lines 1493 to 1502: the pairs are ordered by angle, then by
  intensity; the intensities beyond the number of angles stay where they are.
\<close>

definition sortedAngles :: "real list \<Rightarrow> real list \<Rightarrow> real list" where
  "sortedAngles twoTheta intensity = map fst (sort (zip twoTheta intensity))"

definition sortedIntensities :: "real list \<Rightarrow> real list \<Rightarrow> real list" where
  "sortedIntensities twoTheta intensity =
     map snd (sort (zip twoTheta intensity)) @ drop (length twoTheta) intensity"

text \<open>
  The groups of part 2 are well formed for \<open>n\<close> peaks: there is a group, no group is
  empty, and every index in a group is below \<open>n\<close>.
\<close>

definition goodGroups :: "nat \<Rightarrow> nat list list \<Rightarrow> bool" where
  "goodGroups n gs = (gs \<noteq> [] \<and> (\<forall>g \<in> set gs. g \<noteq> [] \<and> (\<forall>k \<in> set g. k < n)))"

text \<open>
  \<^verbatim>\<open>*std::min_element\<close> and \<^verbatim>\<open>*std::max_element\<close> of a vector that is not empty
  (lines 1560 and 1561).
\<close>

definition minElement :: "real list \<Rightarrow> real" where
  "minElement xs = fold min (tl xs) (hd xs)"

definition maxElement :: "real list \<Rightarrow> real" where
  "maxElement xs = fold max (tl xs) (hd xs)"

text \<open>
  Some peak fails one of the two tests of part 5, for the pseudo-Voigt parameters
  \<open>psParams\<close> and the measured range from \<open>lo\<close> to \<open>hi\<close>.
\<close>

definition somePeakFails :: "ExperimentalKernels \<Rightarrow> real \<Rightarrow> real \<Rightarrow> real list list
    \<Rightarrow> real list list \<Rightarrow> bool" where
  "somePeakFails K lo hi peakTwoTheta psParams =
     list_ex (\<lambda>g. list_ex (\<lambda>k. failsChecks K lo hi (psParams ! k)
                                  (hd (peakTwoTheta ! hd g)) (last (peakTwoTheta ! last g))) g)
       (peakGroups peakTwoTheta)"

text \<open>
  \<^verbatim>\<open>ExperimentalPattern::set(vector<double>&, vector<double>&)\<close>, \<^verbatim>\<open>diffraction.cpp\<close>
  line 1486. The handler of line 1576 catches an \<^verbatim>\<open>int\<close> and clears
  \<^verbatim>\<open>_diffractionPeaks\<close>.
\<close>

definition setExperimental :: "ExperimentalKernels \<Rightarrow> real list \<Rightarrow> real list
    \<Rightarrow> ExperimentalPattern \<Rightarrow> error + ExperimentalPattern" where
  "setExperimental K twoTheta0 intensity0 pat =
     (let pat0 = clearExperimental pat
      in if length intensity0 < length twoTheta0 then Inl OutOfRange
         else let twoTheta = sortedAngles twoTheta0 intensity0;
                  intensity = sortedIntensities twoTheta0 intensity0
              in if alreadyProcessed twoTheta
                 then (case sort_key TwoThetaDeg
                              (map (\<lambda>(t, i). newDiffractionPeak t i) (zip twoTheta intensity))
                       of [] \<Rightarrow> Inl OutOfRange
                        | p # ps \<Rightarrow>
                            Inr (pat0\<lparr> patternType := PT_EXP_INT,
                                       diffractionPeaks := p # ps,
                                       minTwoTheta := getAngle p - resolution pat0,
                                       maxTwoTheta :=
                                         getAngle (last (p # ps)) + resolution pat0 / 2 \<rparr>))
                 else (if twoTheta = [] then Inl OutOfRange
                       else
                           (let pat1 = pat0\<lparr> patternType := PT_EXP_RAW,
                                             continuousTwoTheta := twoTheta,
                                             continuousIntensity :=
                                               take (length twoTheta) intensity,
                                             minTwoTheta := minElement twoTheta,
                                             maxTwoTheta := maxElement twoTheta \<rparr>
                            in bind (locatePeaks K twoTheta intensity)
                                 (\<lambda>(peakTwoTheta, peakIntensities).
                                    case getPeakIntensities K peakTwoTheta peakIntensities pat1 of
                                      (pat2, None) \<Rightarrow> Inr pat2
                                    | (pat2, Some (Thrown e)) \<Rightarrow>
                                        Inr (pat2\<lparr> diffractionPeaks := [] \<rparr>)
                                    | (pat2, Some e) \<Rightarrow> Inl e))))"

section \<open>Orbits that a translation maps onto themselves\<close>








section \<open>Concrete inputs\<close>

text \<open>The argument of \<^verbatim>\<open>asin\<close> in \<^verbatim>\<open>getDiffractionAngle\<close>.\<close>

definition braggArgument :: "Basis \<Rightarrow> Vector3D \<Rightarrow> real \<Rightarrow> real" where
  "braggArgument basis v wl = magnitude (mvmul (inverseB basis) v) * wl / 2"

text \<open>A cubic cell of edge 1 that is its own reduced cell.\<close>

definition unitCubicBasis :: Basis where
  "unitCubicBasis = \<lparr> inverseB = identity3, reducedInverse = identity3,
      unitToReduced = identity3, unitPointToReduced = identity3 \<rparr>"

text \<open>The reflection (100) of that cell at wavelength \<open>wl\<close>.\<close>

definition peak100 :: "real \<Rightarrow> CalculatedPeak" where
  "peak100 wl = newCalculatedPeak DM_XRAY unitCubicBasis wl (1, 0, 0) [(1, 0, 0)]"

text \<open>One orbit of one fully occupied atom at the origin.\<close>

definition originOrbit :: Orbit where
  "originOrbit = \<lparr> atoms = [\<lparr> fractional = (0, 0, 0), occupancy = 1 \<rparr>] \<rparr>"

text \<open>Form-factor parameters of a scatterer with \<open>f = 1\<close> at every angle.\<close>

definition unitScatterer :: "real list" where
  "unitScatterer = [0, 0, 0, 0, 0, 0, 0, 0, 1]"

text \<open>Two peaks, at 10 and 20 degrees.\<close>

definition twoPeaks :: "DiffractionPeak list" where
  "twoPeaks = [newDiffractionPeak 10 1, newDiffractionPeak 20 1]"

text \<open>
  The calculated pattern of the unit cubic cell at wavelength 1 with the single reflection
  (100), at 60 degrees.
\<close>

definition pattern100 :: CalculatedPattern where
  "pattern100 =
     (newCalculatedPattern unitCubicBasis [] [originOrbit])\<lparr> reflections := [peak100 1] \<rparr>"

text \<open>
  Reference peaks of intensities 2 and 3, calculated peaks of intensity 1; the first two
  calculated peaks are matched to the two reference peaks and the third is unmatched.
\<close>

definition refPeaks23 :: "DiffractionPeak list" where
  "refPeaks23 = [newDiffractionPeak 10 2, newDiffractionPeak 20 3]"

definition calcPeaks111 :: "DiffractionPeak list" where
  "calcPeaks111 = [newDiffractionPeak 10 1, newDiffractionPeak 20 1, newDiffractionPeak 30 1]"

definition matchedState :: Diffraction where
  "matchedState = newDiffraction\<lparr> matchingPeaks := [[0], [1]], unmatchedPeaks := [2] \<rparr>"

text \<open>One reference peak and one calculated peak that does not match it.\<close>

definition unmatchedState :: Diffraction where
  "unmatchedState = newDiffraction\<lparr> matchingPeaks := [[]], unmatchedPeaks := [0] \<rparr>"

text \<open>The default pattern on the unit cubic cell, with the wavelength set to 1.\<close>

definition cubicPattern :: CalculatedPattern where
  "cubicPattern =
     (newCalculatedPattern unitCubicBasis [] [originOrbit])\<lparr> patternWavelength := 1 \<rparr>"






text \<open>The index, the angle in degrees and the multiplicity of a reflection.\<close>

definition peakSummary :: "CalculatedPeak \<Rightarrow> Vector3D \<times> real \<times> real" where
  "peakSummary p = (hkl p, TwoThetaDeg p, multiplicity p)"

text \<open>
  The pattern of the unit cubic cell with the single reflection (100) and the broadening
  parameters \<open>U = 0\<close>, \<open>V = -1\<close>, \<open>W = 0.3\<close>, as set by
  \<^verbatim>\<open>setPeakBroadeningParameters(0, -1, 0.3)\<close>.
\<close>

definition narrowPattern :: CalculatedPattern where
  "narrowPattern = pattern100\<lparr> U := 0, V := - 1, W := 3 / 10 \<rparr>"

text \<open>
  The reflections (100), at 60 degrees, and (110), at 90 degrees, of the unit cubic cell at
  wavelength 1, both of intensity 10, in a pattern with the constant background 1, a
  purely Lorentzian profile (\<open>\<eta> = 0\<close>) and the broadening parameters \<open>U = 30\<close>,
  \<open>V = -40\<close>, \<open>W = 11\<close>: the expression \<open>H\<^sup>2\<close> is \<open>21 - 40 / \<surd>3 < 0\<close> at (100) and 1
  at (110). The grid has four angles, and the memory behind it holds zeros.
\<close>

definition strong100 :: CalculatedPeak where
  "strong100 = (peak100 1)\<lparr> peakIntensity := 10 \<rparr>"

definition strong110 :: CalculatedPeak where
  "strong110 =
     (newCalculatedPeak DM_XRAY unitCubicBasis 1 (1, 1, 0) [(1, 1, 0)])\<lparr> peakIntensity := 10 \<rparr>"

definition mixedPattern :: CalculatedPattern where
  "mixedPattern =
     (newCalculatedPattern unitCubicBasis [] [originOrbit])
       \<lparr> reflections := [strong100, strong110],
         backgroundParameters := [1], U := 30, V := - 40, W := 11, eta0 := 0 \<rparr>"

definition mixedGrid :: "real list" where
  "mixedGrid = [60, 88, 90, 92]"

definition zeroMemory :: "nat \<Rightarrow> dbl" where
  "zeroMemory i = Fin 0"

text \<open>
  Kernels of a fit that does not improve: the scale guess is 1, the guesses for the
  background and for the width are zeros and 1/2, and every refinement leaves the
  pattern as it is and reports the R factor 1.
\<close>

definition poorFit :: RietveldKernels where
  "poorFit = \<lparr> scaleGuess = (\<lambda>pat. Inr 1),
                runRefinement = (\<lambda>pat. Inr (pat, 1)),
                guessBackgroundParameters = (\<lambda>pat. Inr [0, 0, 0, 0, 0]),
                guessPeakWidthParameter = (\<lambda>pat. Inr (1 / 2)) \<rparr>"

text \<open>The default pattern on the unit cubic cell before any reflection is stored.\<close>

definition emptyPattern :: CalculatedPattern where
  "emptyPattern = newCalculatedPattern unitCubicBasis [] [originOrbit]"

text \<open>
  The state in which the driver stops for these kernels, and the log of its eight calls of
  \<^verbatim>\<open>runRefinement\<close>.
\<close>

definition poorFitPattern :: CalculatedPattern where
  "poorFitPattern = emptyPattern\<lparr> optimalScale := 1, backgroundParameters := [0, 0, 0, 0, 0],
      W := 1 / 2,
      currentlyRefining := {RF_SCALE, RF_SPECDISP, RF_BACKGROUND, RF_BASIS, RF_WFACTOR} \<rparr>"

definition poorFitCalls :: "RefinementParameters set list" where
  "poorFitCalls = [{RF_SCALE}, {RF_SPECDISP}, {RF_SCALE, RF_SPECDISP}, {RF_BACKGROUND, RF_SCALE},
     {RF_SCALE, RF_SPECDISP, RF_BACKGROUND}, {RF_BASIS},
     {RF_SCALE, RF_SPECDISP, RF_BACKGROUND, RF_BASIS, RF_WFACTOR},
     {RF_SCALE, RF_SPECDISP, RF_BACKGROUND, RF_BASIS, RF_WFACTOR}]"

text \<open>
  A raw pattern of four evenly spaced angles in which two peaks are located; the fitted
  pseudo-Voigt of the first has its maximum at 10.5 degrees and the integral 5, the one
  of the second has its maximum at 12.5 degrees and the integral \<open>-5\<close>. The kernels read
  the location and the integral off the parameters \<open>2\<theta>\<^sub>k\<close> and \<open>I\<close>.
\<close>

definition rawAngles :: "real list" where
  "rawAngles = [10, 11, 12, 13]"

definition rawIntensities :: "real list" where
  "rawIntensities = [1, 5, 1, 5]"

definition twoPeakKernels :: ExperimentalKernels where
  "twoPeakKernels =
     \<lparr> locatePeaks = (\<lambda>twoTheta intensity. Inr ([[10, 11], [12, 13]], [[1, 5], [1, 5]])),
       fitPeaks = (\<lambda>peakTwoTheta peakIntensities peakGroup.
          [[1, 0, 0, 21 / 2, 1, 0, 0, 5], [1, 0, 0, 25 / 2, 1, 0, 0, - 5]]),
       maximize = (\<lambda>params. params ! 3),
       integrate = (\<lambda>params groupMin groupMax. params ! 7) \<rparr>"

text \<open>An experimental pattern as its constructor leaves it.\<close>

definition newExperimentalPattern :: ExperimentalPattern where
  "newExperimentalPattern =
     Diffraction.extend newDiffraction (ExperimentalPattern.fields [] [] [])"

section \<open>Auxiliary facts\<close>

lemma arcsin_half: "arcsin (1 / 2) = pi / 6"
  using arcsin_sin [of "pi / 6"] by (simp add: sin_30)

lemma braggArgument_100: "braggArgument unitCubicBasis (1, 0, 0) wl = wl / 2"
  by (simp add: braggArgument_def unitCubicBasis_def identity3_def magnitude_def)

lemma getDiffractionAngle_100: "getDiffractionAngle unitCubicBasis (1, 0, 0) 1 = pi / 6"
  by (simp add: getDiffractionAngle_def unitCubicBasis_def identity3_def magnitude_def
      arcsin_half)

lemma peak100_fields:
  "hkl (peak100 wl) = (1, 0, 0)" "wavelength (peak100 wl) = wl"
  by (simp_all add: peak100_def newCalculatedPeak_def updatePeakPosition_def Let_def)

lemma getLPFactor_30: "getLPFactor (pi / 6) = 10 / sqrt 3"
  by (simp add: getLPFactor_def sin_30 cos_30 cos_60 power2_eq_square field_simps)

section \<open>The Bragg angle of a reflection\<close>

text \<open>
  Claim C9, as amended. After \<^verbatim>\<open>updatePeakPosition\<close> the stored angle \<open>two_theta_rad\<close> is
  \<open>2 asin (|B\<^sup>-\<^sup>1 hkl| \<lambda> / 2)\<close> whenever the argument of \<open>asin\<close> lies in \<open>[-1, 1]\<close>. It is
  the half angle returned by \<^verbatim>\<open>getDiffractionAngle\<close> that is clamped to
  \<open>[-\<pi>/2, \<pi>/2]\<close>: the stored angle is twice that, so it always lies in \<open>[-\<pi>, \<pi>]\<close> and
  takes the value \<open>\<pi>\<close> above the range of the argument and \<open>-\<pi>\<close> below it.
\<close>

theorem updatePeakPosition_twoThetaRad:
  "(- 1 \<le> braggArgument basis (hkl p) (wavelength p)
      \<and> braggArgument basis (hkl p) (wavelength p) \<le> 1 \<longrightarrow>
      twoThetaRad (updatePeakPosition basis p)
        = 2 * arcsin (braggArgument basis (hkl p) (wavelength p)))
   \<and> (1 < braggArgument basis (hkl p) (wavelength p) \<longrightarrow>
        twoThetaRad (updatePeakPosition basis p) = pi)
   \<and> (braggArgument basis (hkl p) (wavelength p) < - 1 \<longrightarrow>
        twoThetaRad (updatePeakPosition basis p) = - pi)
   \<and> - pi \<le> twoThetaRad (updatePeakPosition basis p)
   \<and> twoThetaRad (updatePeakPosition basis p) \<le> pi"
proof -
  have "- (pi / 2) \<le> arcsin x \<and> arcsin x \<le> pi / 2" if "- 1 \<le> x" "x \<le> 1" for x :: real
    using that arcsin_bounded by blast
  then show ?thesis
    by (auto simp: updatePeakPosition_def getDiffractionAngle_def braggArgument_def Let_def)
      (smt (verit) field_sum_of_halves pi_ge_zero)+
qed

text \<open>The theorem at the reflection (100) of the unit cubic cell, wavelength 1: \<open>2\<theta> = \<pi>/3\<close>.\<close>

theorem updatePeakPosition_twoThetaRad_witness:
  "(- 1 \<le> braggArgument unitCubicBasis (1, 0, 0) 1
      \<and> braggArgument unitCubicBasis (1, 0, 0) 1 \<le> 1)
   \<and> twoThetaRad (updatePeakPosition unitCubicBasis (peak100 1)) = pi / 3"
  using updatePeakPosition_twoThetaRad [of unitCubicBasis "peak100 1"]
  by (simp add: peak100_fields braggArgument_100 arcsin_half)

text \<open>
  Claim C9 as the specification states it fails: at wavelength 2 the argument of \<open>asin\<close>
  for the reflection (100) of the unit cubic cell is 1, inside \<open>[-1, 1]\<close>, and the stored
  angle is \<open>\<pi>\<close>, outside \<open>[-\<pi>/2, \<pi>/2]\<close>.
\<close>

theorem twoThetaRad_not_clamped_to_half_pi:
  "braggArgument unitCubicBasis (hkl (peak100 2)) (wavelength (peak100 2)) = 1
   \<and> twoThetaRad (peak100 2) = pi
   \<and> \<not> (- pi / 2 \<le> twoThetaRad (peak100 2) \<and> twoThetaRad (peak100 2) \<le> pi / 2)"
  by (simp add: peak100_fields braggArgument_100)
    (simp add: peak100_def newCalculatedPeak_def updatePeakPosition_def
      getDiffractionAngle_def unitCubicBasis_def identity3_def magnitude_def)

section \<open>The thermal factor in the integrated intensity\<close>

text \<open>
  Claim C1 at a concrete reflection. For the reflection (100) of the unit cubic cell at
  wavelength 1 (\<open>sin \<theta> = 1/2\<close>), one atom at the origin with \<open>f = 1\<close>, occupancy 1 and
  B factor 2, no texture: the code stores \<open>exp (-1/8) \<sqdot> LP\<close>, that is the thermal factor
  \<open>exp (- (sin \<theta> / B)\<^sup>2) = exp (-1/16)\<close>, where the formula of the claim gives
  \<open>exp (-1) \<sqdot> LP\<close> from the thermal factor \<open>exp (- B (sin \<theta> / \<lambda>)\<^sup>2) = exp (-1/2)\<close>.
\<close>

theorem updateCalculatedIntensity_thermal_factor:
  "map_sum id peakIntensity
     (updateCalculatedIntensity [originOrbit] [2] [unitScatterer] (1, 0, 0) 1 (peak100 1))
     = Inr (exp (- (1 / 8)) * (10 / sqrt 3))
   \<and> specStructureFactorSquared DM_XRAY 1 (twoThetaRad (peak100 1) / 2) (1, 0, 0)
        [(originOrbit, 2, 1)] * lpFactor (peak100 1) * multiplicity (peak100 1)
        * getTexturingFactor (1, 0, 0) 1 (recipLatVecs (peak100 1))
     = exp (- 1) * (10 / sqrt 3)
   \<and> exp (- (1 / 8)) * (10 / sqrt 3) \<noteq> exp (- 1) * (10 / sqrt (3::real))"
proof -
  have pk: "twoThetaRad (peak100 1) = pi / 3" "lpFactor (peak100 1) = 10 / sqrt 3"
    "multiplicity (peak100 1) = 1" "recipLatVecs (peak100 1) = [(1, 0, 0)]"
    "peakMethod (peak100 1) = DM_XRAY"
    by (simp_all add: peak100_def newCalculatedPeak_def updatePeakPosition_def Let_def
        getDiffractionAngle_100 getLPFactor_30)
      (simp add: unitCubicBasis_def identity3_def)
  have tex: "getTexturingFactor (1, 0, 0) 1 [(1, 0, 0)] = 1"
    by (simp add: getTexturingFactor_def magnitude_def)
  have code: "structureFactorSquared DM_XRAY 1 [originOrbit] (pi / 6) (1, 0, 0) [2]
      [unitScatterer] = Inr (exp (- (1 / 8)))"
    by (simp add: structureFactorSquared_def bind_def nth_opt_def atomicScatteringFactor_def
        thermalFactor_def originOrbit_def unitScatterer_def sin_30 power2_eq_square
        mult_exp_exp)
  have spec: "specStructureFactorSquared DM_XRAY 1 (pi / 6) (1, 0, 0) [(originOrbit, 2, 1)]
      = exp (- 1)"
    by (simp add: specStructureFactorSquared_def specThermal_def originOrbit_def sin_30
        power2_eq_square mult_exp_exp)
  show ?thesis
    by (simp add: updateCalculatedIntensity_def pk peak100_fields code spec tex bind_def)
qed

section \<open>Matching\<close>

lemma peak100_angle: "TwoThetaDeg (peak100 1) = 60"
  by (simp add: peak100_def newCalculatedPeak_def updatePeakPosition_def Let_def
      getDiffractionAngle_100 toDegrees_def)

text \<open>
  Claim C2 at a concrete input: a pattern with peaks at 10 and 20 degrees matched to a
  reference with peaks at 10 and 20 degrees. The second peak lies on the second reference
  peak (distance 0) and ten degrees from the first, and the code appends its index to the
  bucket of the first reference peak: the search for peak number \<open>k\<close> starts from the
  distance to reference peak number \<open>k\<close> while \<^verbatim>\<open>nearIndex\<close> starts at 0. With fewer
  reference peaks than peaks the same line reads past the end of the reference list.
\<close>

theorem matchPeaksToReference_identical_patterns:
  "map_sum id (\<lambda>d. (matchingPeaks d, unmatchedPeaks d))
     (Diffraction_matchPeaksToReference twoPeaks twoPeaks newDiffraction)
     = Inr ([[0, 1], []], [])
   \<and> \<bar>getAngle (twoPeaks ! 1) - getAngle (twoPeaks ! 1)\<bar>
       < \<bar>getAngle (twoPeaks ! 1) - getAngle (twoPeaks ! 0)\<bar>
   \<and> Diffraction_matchPeaksToReference [newDiffractionPeak 10 1] twoPeaks newDiffraction
       = Inl OutOfRange"
  by (simp add: Diffraction_matchPeaksToReference_def twoPeaks_def newDiffractionPeak_def
      bind_def nth_opt_def getAngle_def)

text \<open>
  Claim C3 at a concrete input: the calculated pattern with the single reflection at 60
  degrees matched to a reference with a single peak at 10 degrees. The reflection is
  recorded as unmatched, and its stored \<^verbatim>\<open>patternIndex\<close>, read through
  \<^verbatim>\<open>getDiffractedPeaks\<close>, is 0 and not \<open>-1\<close>: the base class writes \<open>-1\<close> into its local
  copy of the peaks only.
\<close>

theorem matchPeaksToReference_stored_patternIndex:
  "map_sum id
     (\<lambda>pat. (map patternIndex (getDiffractedPeaks pat), unmatchedPeaks pat, matchingPeaks pat))
     (CalculatedPattern_matchPeaksToReference [newDiffractionPeak 10 1] pattern100)
     = Inr ([0], [0], [[]])"
  by (simp add: CalculatedPattern_matchPeaksToReference_def
      Diffraction_matchPeaksToReference_def pattern100_def numberReflections_def
      getDiffractedPeaks_def DiffractionPeak.truncate_def newDiffractionPeak_def bind_def
      nth_opt_def getAngle_def peak100_angle Let_def)

section \<open>Scaling the reference intensities\<close>

lemma foldl_add_sum:
  "foldl (\<lambda>acc x. acc + f x) a xs = a + sum_list (map f xs)" for a :: real
  by (induction xs arbitrary: a) simp_all

lemma foldl_add_sum2:
  "foldl (\<lambda>acc (x, y). acc + g x y) a xs = a + sum_list (map (\<lambda>(x, y). g x y) xs)" for a :: real
  by (induction xs arbitrary: a) (simp_all add: split_def)

lemma zip_scaled: "zip (map ((*) \<alpha>) R) M = map (\<lambda>(r, m). (\<alpha> * r, m)) (zip R M)" for \<alpha> :: real
  by (induction R arbitrary: M) (auto split: list.splits simp: zip_Cons1)

lemma absError_sum:
  "absError R M Ui s = sum_list (map (\<lambda>(r, m). \<bar>r - s * m\<bar>) (zip R M)) + sum_list (map (\<lambda>u. \<bar>s * u\<bar>) Ui)"
  by (simp add: absError_def foldl_add_sum foldl_add_sum2)

lemma absError_scaled:
  assumes "0 < \<alpha>"
  shows "absError (map ((*) \<alpha>) R) M Ui (\<alpha> * s) = \<alpha> * absError R M Ui s"
proof -
  have a: "\<bar>\<alpha> * r - \<alpha> * s * m\<bar> = \<alpha> * \<bar>r - s * m\<bar>" for r m
  proof -
    have "\<alpha> * r - \<alpha> * s * m = \<alpha> * (r - s * m)" by (simp add: algebra_simps)
    then show ?thesis using assms by (simp add: abs_mult)
  qed
  have b: "\<bar>\<alpha> * s * u\<bar> = \<alpha> * \<bar>s * u\<bar>" for u
    using assms by (simp add: abs_mult)
  have 1: "(\<Sum>(r, m)\<leftarrow>zip (map ((*) \<alpha>) R) M. \<bar>r - \<alpha> * s * m\<bar>)
      = \<alpha> * (\<Sum>(r, m)\<leftarrow>zip R M. \<bar>r - s * m\<bar>)"
    by (simp add: zip_scaled o_def split_def a sum_list_const_mult)
  have 2: "(\<Sum>u\<leftarrow>Ui. \<bar>\<alpha> * s * u\<bar>) = \<alpha> * (\<Sum>u\<leftarrow>Ui. \<bar>s * u\<bar>)"
    by (simp add: b sum_list_const_mult)
  show ?thesis
    by (simp only: absError_sum 1 2 distrib_left)
qed

lemma scaleScan_scaled:
  assumes "0 < \<alpha>"
  shows "scaleScan (map ((*) \<alpha>) R) M Ui (map (\<lambda>(r, m). (\<alpha> * r, m)) xs) (\<alpha> * e, \<alpha> * s)
     = (\<alpha> * fst (scaleScan R M Ui xs (e, s)), \<alpha> * snd (scaleScan R M Ui xs (e, s)))"
proof (induction xs arbitrary: e s)
  case Nil
  show ?case by simp
next
  case (Cons x xs)
  obtain r m where x: "x = (r, m)" by (cases x)
  show ?case
  proof (cases "m = 0")
    case True
    then show ?thesis using Cons.IH x by simp
  next
    case False
    have sc: "\<alpha> * r / m = \<alpha> * (r / m)" by simp
    show ?thesis
      using False x assms Cons.IH [of "absError R M Ui (r / m)" "r / m"] Cons.IH [of e s]
      by (simp add: Let_def sc absError_scaled del: times_divide_eq_right)
  qed
qed

lemma scaleScan_start:
  assumes "(r, m) \<in> set xs" "m \<noteq> 0" "absError R M Ui (r / m) < e" "absError R M Ui (r / m) < e'"
  shows "scaleScan R M Ui xs (e, s) = scaleScan R M Ui xs (e', s')"
  using assms
proof (induction xs arbitrary: e s e' s')
  case Nil
  then show ?case by simp
next
  case (Cons x xs)
  obtain r0 m0 where x: "x = (r0, m0)" by (cases x)
  show ?case
  proof (cases "m0 = 0")
    case True
    then have "(r, m) \<in> set xs" using Cons.prems x by auto
    then show ?thesis using Cons.IH [OF _ Cons.prems(2,3,4)] True x by simp
  next
    case False
    let ?E = "absError R M Ui (r0 / m0)"
    consider (both) "?E < e" "?E < e'" | (l) "?E < e" "\<not> ?E < e'" | (r) "\<not> ?E < e" "?E < e'"
      | (none) "\<not> ?E < e" "\<not> ?E < e'" by blast
    then show ?thesis
    proof cases
      case both
      then show ?thesis using False x by (simp add: Let_def)
    next
      case l
      then have ne: "(r, m) \<noteq> (r0, m0)" using Cons.prems by auto
      then have mem: "(r, m) \<in> set xs" using Cons.prems x by auto
      have lt: "absError R M Ui (r / m) < ?E" using l Cons.prems by linarith
      show ?thesis using False x l Cons.IH [OF mem Cons.prems(2) lt Cons.prems(4)] by (simp add: Let_def)
    next
      case r
      then have ne: "(r, m) \<noteq> (r0, m0)" using Cons.prems by auto
      then have mem: "(r, m) \<in> set xs" using Cons.prems x by auto
      have lt: "absError R M Ui (r / m) < ?E" using r Cons.prems by linarith
      show ?thesis using False x r Cons.IH [OF mem Cons.prems(2) Cons.prems(3) lt] by (simp add: Let_def)
    next
      case none
      then have ne: "(r, m) \<noteq> (r0, m0)" using Cons.prems by auto
      then have mem: "(r, m) \<in> set xs" using Cons.prems x by auto
      show ?thesis using False x none Cons.IH [OF mem Cons.prems(2,3,4)] by (simp add: Let_def)
    qed
  qed
qed

lemma scaleScan_reference_scaled:
  assumes "0 < \<alpha>" "i < length R" "i < length M" "M ! i \<noteq> 0"
    "absError R M Ui (R ! i / M ! i) < initialMinimumError"
    "\<alpha> * absError R M Ui (R ! i / M ! i) < initialMinimumError"
  shows "snd (scaleScan (map ((*) \<alpha>) R) M Ui (zip (map ((*) \<alpha>) R) M) (initialMinimumError, 1))
     = \<alpha> * snd (scaleScan R M Ui (zip R M) (initialMinimumError, 1))"
proof -
  let ?xs = "map (\<lambda>(r, m). (\<alpha> * r, m)) (zip R M)"
  have mem: "(\<alpha> * R ! i, M ! i) \<in> set ?xs"
    using assms(2,3) by (force simp: set_zip)
  have e: "absError (map ((*) \<alpha>) R) M Ui (\<alpha> * R ! i / M ! i) = \<alpha> * absError R M Ui (R ! i / M ! i)"
    using absError_scaled [OF assms(1), of R M Ui "R ! i / M ! i"] by simp
  have lt2: "\<alpha> * absError R M Ui (R ! i / M ! i) < \<alpha> * initialMinimumError"
    using assms(1,5) by simp
  have "scaleScan (map ((*) \<alpha>) R) M Ui ?xs (initialMinimumError, 1)
      = scaleScan (map ((*) \<alpha>) R) M Ui ?xs (\<alpha> * initialMinimumError, \<alpha> * 1)"
    by (rule scaleScan_start [OF mem assms(4)]) (simp_all only: e assms(6) lt2)
  then show ?thesis
    by (simp only: zip_scaled scaleScan_scaled [OF assms(1)] snd_conv)
qed


lemma matchedFrom_length:
  "matchedFrom thisPeaks matching i n = Inr ms \<Longrightarrow> length ms = n"
  by (induction n arbitrary: i ms) (auto simp: bind_def split: sum.splits)

lemma gatherIntensities_length:
  "gatherIntensities referencePeaks thisPeaks d = Inr (R, M, Ui) \<Longrightarrow> length M = length R"
  by (auto simp: gatherIntensities_def bind_def split: if_splits sum.splits
      dest: matchedFrom_length)

lemma gatherIntensities_scaled:
  "gatherIntensities referencePeaks thisPeaks d = Inr (R, M, Ui) \<Longrightarrow>
   gatherIntensities (scaleReference \<alpha> referencePeaks) thisPeaks d = Inr (map ((*) \<alpha>) R, M, Ui)"
  by (auto simp: gatherIntensities_def scaleReference_def bind_def getIntensity_def o_def
      split: if_splits sum.splits)

lemma inner_product_sum: "inner_product xs ys = (\<Sum>(x, y)\<leftarrow>zip xs ys. x * y)"
  by (simp add: inner_product_def foldl_add_sum2)

lemma inner_product_scaled: "inner_product M (map ((*) \<alpha>) R) = \<alpha> * inner_product M R"
proof -
  have "(\<Sum>(x, y)\<leftarrow>zip M (map ((*) \<alpha>) R). x * y) = (\<Sum>(x, y)\<leftarrow>zip M R. \<alpha> * (x * y))"
    by (simp add: zip_map2 o_def split_def mult.left_commute)
  then show ?thesis
    by (simp add: inner_product_sum split_def sum_list_const_mult)
qed

lemma norm_squared_scaled:
  "foldl (\<lambda>acc r. acc + r * r) 0 (map ((*) \<alpha>) R) = \<alpha>\<^sup>2 * foldl (\<lambda>acc r. acc + r * r) 0 R"
  for \<alpha> :: real
proof -
  have "(\<Sum>r\<leftarrow>R. \<alpha> * r * (\<alpha> * r)) = (\<Sum>r\<leftarrow>R. \<alpha>\<^sup>2 * (r * r))"
    by (simp add: power2_eq_square mult.assoc mult.left_commute)
  then show ?thesis
    by (simp add: foldl_add_sum o_def sum_list_const_mult)
qed

lemma norm_abs_scaled: "foldl (+) 0 (map ((*) \<alpha>) R) = \<alpha> * foldl (+) 0 R" for \<alpha> :: real
  using foldl_add_sum [of "\<lambda>x. x" 0] by (simp add: o_def sum_list_const_mult)

lemma squared_error_scaled:
  "foldl (\<lambda>acc u. acc + (\<alpha> * s * u)\<^sup>2)
     (foldl (\<lambda>acc (r, m). acc + (r - \<alpha> * s * m)\<^sup>2) 0 (zip (map ((*) \<alpha>) R) M)) Ui
   = \<alpha>\<^sup>2 * foldl (\<lambda>acc u. acc + (s * u)\<^sup>2)
       (foldl (\<lambda>acc (r, m). acc + (r - s * m)\<^sup>2) 0 (zip R M)) Ui" for \<alpha> :: real
proof -
  have a: "(\<alpha> * r - \<alpha> * s * m)\<^sup>2 = \<alpha>\<^sup>2 * (r - s * m)\<^sup>2" for r m
    by (simp add: power2_eq_square algebra_simps)
  have b: "(\<alpha> * s * u)\<^sup>2 = \<alpha>\<^sup>2 * (s * u)\<^sup>2" for u
    by (simp add: power2_eq_square algebra_simps)
  have 1: "(\<Sum>(r, m)\<leftarrow>zip (map ((*) \<alpha>) R) M. (r - \<alpha> * s * m)\<^sup>2)
      = \<alpha>\<^sup>2 * (\<Sum>(r, m)\<leftarrow>zip R M. (r - s * m)\<^sup>2)"
    by (simp add: zip_map1 o_def split_def a sum_list_const_mult)
  have 2: "(\<Sum>u\<leftarrow>Ui. (\<alpha> * s * u)\<^sup>2) = \<alpha>\<^sup>2 * (\<Sum>u\<leftarrow>Ui. (s * u)\<^sup>2)"
    by (simp add: b sum_list_const_mult)
  show ?thesis
    by (simp only: foldl_add_sum foldl_add_sum2 1 2 distrib_left add_0)
qed

lemma rFactorFrom_squared_scaled:
  assumes "0 < \<alpha>"
  shows "rFactorFrom DR_SQUARED old (map ((*) \<alpha>) R) M Ui
     = map_sum id (\<lambda>(rf, s). (rf, \<alpha> * s)) (rFactorFrom DR_SQUARED old R M Ui)"
proof -
  have sc: "inner_product M (map ((*) \<alpha>) R) / D = \<alpha> * (inner_product M R / D)" for D
    by (simp add: inner_product_scaled)
  show ?thesis
    using assms
    by (simp add: rFactorFrom_def Let_def norm_squared_scaled sc squared_error_scaled
        del: times_divide_eq_right)
qed

lemma rFactorFrom_abs_scaled:
  assumes "0 < \<alpha>" "i < length R" "length M = length R" "M ! i \<noteq> 0"
    "absError R M Ui (R ! i / M ! i) < initialMinimumError"
    "\<alpha> * absError R M Ui (R ! i / M ! i) < initialMinimumError"
  shows "rFactorFrom DR_ABS old (map ((*) \<alpha>) R) M Ui
     = map_sum id (\<lambda>(rf, s). (rf, \<alpha> * s)) (rFactorFrom DR_ABS old R M Ui)"
proof -
  have i: "i < length M" using assms(2,3) by simp
  note sc = scaleScan_reference_scaled [OF assms(1,2) i assms(4,5,6)]
  show ?thesis
    using assms(1)
    by (simp add: rFactorFrom_def Let_def norm_abs_scaled sc absError_scaled)
qed

lemma gather23: "gatherIntensities refPeaks23 calcPeaks111 matchedState = Inr ([2, 3], [1, 1], [1])"
  by (simp add: gatherIntensities_def matchedState_def refPeaks23_def calcPeaks111_def bind_def nth_opt_def
     newDiffractionPeak_def getIntensity_def)

lemma abs23: "absError [2, 3] [1, 1] [1] 2 = 3"
  by (simp add: absError_def)

text \<open>
  Claim C10, as amended. Let \<open>\<alpha> > 0\<close> and let the matched and unmatched intensities be
  fixed. For \<open>DR_SQUARED\<close>, multiplying every reference intensity by \<open>\<alpha>\<close> leaves the R
  factor unchanged and multiplies the optimal scale by \<open>\<alpha>\<close>. For \<open>DR_ABS\<close> the same
  holds provided some reference peak has a non-zero matched intensity and the error of
  its trial scale is below the start value \<open>1e100\<close> of the scan, before and after the
  scaling. (An error of the model, an index out of range or a zero normalisation sum, is
  the same before and after.)
\<close>

theorem getCurrentRFactor_scale_invariant:
  assumes "0 < \<alpha>"
    and "rmethod = DR_ABS \<or> rmethod = DR_SQUARED"
    and "gatherIntensities referencePeaks thisPeaks d = Inr (R, M, Ui)"
    and "rmethod = DR_ABS \<Longrightarrow>
           \<exists>i < length R. M ! i \<noteq> 0 \<and> absError R M Ui (R ! i / M ! i) < initialMinimumError
              \<and> \<alpha> * absError R M Ui (R ! i / M ! i) < initialMinimumError"
  shows "getCurrentRFactor (scaleReference \<alpha> referencePeaks) thisPeaks rmethod d
     = map_sum id (\<lambda>(rFactor, d'). (rFactor, d'\<lparr> optimalScale := \<alpha> * optimalScale d' \<rparr>))
         (getCurrentRFactor referencePeaks thisPeaks rmethod d)"
proof -
  note g = gatherIntensities_scaled [OF assms(3), of \<alpha>]
  have len: "length M = length R" by (rule gatherIntensities_length [OF assms(3)])
  have "rFactorFrom rmethod (optimalScale d) (map ((*) \<alpha>) R) M Ui
     = map_sum id (\<lambda>(rf, s). (rf, \<alpha> * s)) (rFactorFrom rmethod (optimalScale d) R M Ui)"
  proof (cases "rmethod = DR_ABS")
    case True
    then obtain i where "i < length R" "M ! i \<noteq> 0" "absError R M Ui (R ! i / M ! i) < initialMinimumError"
      "\<alpha> * absError R M Ui (R ! i / M ! i) < initialMinimumError"
      using assms(4) by blast
    then show ?thesis
      using rFactorFrom_abs_scaled [OF assms(1) _ len] True by blast
  next
    case False
    then show ?thesis using assms(2) rFactorFrom_squared_scaled [OF assms(1)] by simp
  qed
  then show ?thesis
    by (cases "rFactorFrom rmethod (optimalScale d) R M Ui")
      (auto simp: getCurrentRFactor_def g assms(3) bind_def)
qed

text \<open>
  The theorem for \<open>DR_ABS\<close> at reference intensities 2 and 3 with \<open>\<alpha> = 4\<close>: the R factor
  is 3/5 before and after, the optimal scale goes from 2 to 8.
\<close>

theorem getCurrentRFactor_scale_invariant_witness:
  "(0::real) < 4 \<and> gatherIntensities refPeaks23 calcPeaks111 matchedState = Inr ([2, 3], [1, 1], [1])
   \<and> (\<exists>i < length [2, 3 :: real]. [1, 1 :: real] ! i \<noteq> 0
         \<and> absError [2, 3] [1, 1] [1] ([2, 3] ! i / [1, 1] ! i) < initialMinimumError
         \<and> 4 * absError [2, 3] [1, 1] [1] ([2, 3] ! i / [1, 1] ! i) < initialMinimumError)
   \<and> getCurrentRFactor refPeaks23 calcPeaks111 DR_ABS matchedState = Inr (3 / 5, matchedState\<lparr> optimalScale := 2 \<rparr>)
   \<and> getCurrentRFactor (scaleReference 4 refPeaks23) calcPeaks111 DR_ABS matchedState
        = Inr (3 / 5, matchedState\<lparr> optimalScale := 8 \<rparr>)"
proof -
  have ex: "\<exists>i < length [2, 3 :: real]. [1, 1 :: real] ! i \<noteq> 0
         \<and> absError [2, 3] [1, 1] [1] ([2, 3] ! i / [1, 1] ! i) < initialMinimumError
         \<and> 4 * absError [2, 3] [1, 1] [1] ([2, 3] ! i / [1, 1] ! i) < initialMinimumError"
    by (rule exI [of _ 0]) (simp add: abs23 initialMinimumError_def)
  have r: "getCurrentRFactor refPeaks23 calcPeaks111 DR_ABS matchedState = Inr (3 / 5, matchedState\<lparr> optimalScale := 2 \<rparr>)"
    by (simp add: getCurrentRFactor_def gather23 bind_def rFactorFrom_def Let_def absError_def
        initialMinimumError_def)
  show ?thesis
    using getCurrentRFactor_scale_invariant [of 4 DR_ABS refPeaks23 calcPeaks111 matchedState "[2, 3]" "[1, 1]" "[1]"]
      ex gather23 r
    by simp
qed

text \<open>
  Claim C10 as the specification states it fails for \<open>DR_ABS\<close> when no calculated peak
  matches a reference peak: every trial scale is skipped, the optimal scale stays at its
  start value 1 whatever the reference intensity is, and doubling the reference intensity
  changes the R factor from 2 to 3/2.
\<close>

theorem getCurrentRFactor_unmatched_not_scale_invariant:
  "map_sum id (\<lambda>(rFactor, d'). (rFactor, optimalScale d'))
     (getCurrentRFactor [newDiffractionPeak 10 1] [newDiffractionPeak 60 1] DR_ABS unmatchedState) = Inr (2, 1)
  \<and> map_sum id (\<lambda>(rFactor, d'). (rFactor, optimalScale d'))
     (getCurrentRFactor (scaleReference 2 [newDiffractionPeak 10 1]) [newDiffractionPeak 60 1] DR_ABS unmatchedState)
     = Inr (3 / 2, 1)"
  by (simp add: getCurrentRFactor_def gatherIntensities_def unmatchedState_def scaleReference_def bind_def nth_opt_def
     newDiffractionPeak_def getIntensity_def rFactorFrom_def Let_def absError_def initialMinimumError_def)

section \<open>The enumerated reflections\<close>

lemma set_map_filter: "y \<in> set (List.map_filter f xs) \<longleftrightarrow> (\<exists>x \<in> set xs. f x = Some y)"
  by (induction xs) (auto split: option.splits)

lemma assignPeak_fields:
  "TwoThetaDeg (assignPeak d p) = TwoThetaDeg p"
  "twoThetaRad (assignPeak d p) = twoThetaRad p"
  "lpFactor (assignPeak d p) = lpFactor p"
  "multiplicity (assignPeak d p) = multiplicity p"
  "hkl (assignPeak d p) = hkl p"
  "equivHKL (assignPeak d p) = equivHKL p"
  "peakMethod (assignPeak d p) = peakMethod d"
  "wavelength (assignPeak d p) = wavelength d"
  "recipLatVecs (assignPeak d p) = recipLatVecs d"
  by (simp_all add: assignPeak_def)

lemma sortReflections_angles:
  "map TwoThetaDeg (sortReflections ps) = map TwoThetaDeg (sort_key TwoThetaDeg ps)"
  by (simp add: sortReflections_def map_zip_map2 assignPeak_fields list_eq_iff_nth_eq)

lemma sortReflections_from:
  assumes "q \<in> set (sortReflections ps)"
  shows "\<exists>d \<in> set ps. \<exists>p \<in> set ps. q = assignPeak d p"
proof -
  from assms obtain d p where "(d, p) \<in> set (zip ps (sort_key TwoThetaDeg ps))" "q = assignPeak d p"
    by (auto simp: sortReflections_def)
  moreover from this have "d \<in> set ps" by (auto dest: set_zip_leftD)
  moreover from calculation have "p \<in> set (sort_key TwoThetaDeg ps)" by (auto dest: set_zip_rightD)
  then have "p \<in> set ps" by simp
  ultimately show ?thesis by blast
qed

lemma sortReflections_to:
  assumes "p \<in> set ps"
  shows "\<exists>d \<in> set ps. assignPeak d p \<in> set (sortReflections ps)"
proof -
  have "p \<in> set (sort_key TwoThetaDeg ps)" using assms by simp
  then obtain i where "i < length (sort_key TwoThetaDeg ps)" "sort_key TwoThetaDeg ps ! i = p"
    unfolding in_set_conv_nth by blast
  then have i: "i < length ps" "sort_key TwoThetaDeg ps ! i = p" by simp_all
  then have "(ps ! i, p) \<in> set (zip ps (sort_key TwoThetaDeg ps))"
    by (auto simp: in_set_zip intro!: exI [of _ i])
  then have "assignPeak (ps ! i) p \<in> set (sortReflections ps)"
    by (force simp: sortReflections_def)
  then show ?thesis using i(1) by (intro bexI [of _ "ps ! i"]) simp_all
qed

lemma reflections_calculatePeakLocations:
  "reflections (calculatePeakLocations it pat)
   = sortReflections (List.map_filter (seedPeak it pat) (seedList (hklRange pat)))"
  by (simp add: calculatePeakLocations_def)

lemma equivLoop_nonempty:
  "equivLoop ops redHKL (mult, pts) = (mult', pts') \<Longrightarrow> pts \<noteq> [] \<Longrightarrow> pts' \<noteq> []"
  by (induction ops arbitrary: mult pts) (auto simp: Let_def split: if_splits)

lemma newCalculatedPeak_fields:
  "TwoThetaDeg (newCalculatedPeak m basis wl v equivs) = 2 * toDegrees (getDiffractionAngle basis v wl)"
  "multiplicity (newCalculatedPeak m basis wl v equivs) = real (length equivs)"
  "equivHKL (newCalculatedPeak m basis wl v equivs) = equivs"
  "hkl (newCalculatedPeak m basis wl v equivs) = v"
  "peakMethod (newCalculatedPeak m basis wl v equivs) = m"
  "wavelength (newCalculatedPeak m basis wl v equivs) = wl"
  "recipLatVecs (newCalculatedPeak m basis wl v equivs) = map (mvmul (inverseB basis)) equivs"
  by (simp_all add: newCalculatedPeak_def updatePeakPosition_def Let_def toDegrees_def)

lemma seedPeak_Some:
  assumes "seedPeak it pat s = Some p"
  shows "minTwoTheta pat \<le> TwoThetaDeg p \<and> TwoThetaDeg p \<le> maxTwoTheta pat
     \<and> multiplicity p = real (length (equivHKL p)) \<and> 1 \<le> length (equivHKL p)"
    and "peakMethod p = patternMethod pat \<and> wavelength p = patternWavelength pat
     \<and> recipLatVecs p \<noteq> []"
proof -
  obtain mult pts where e: "equivLoop (reducedOperations pat) s (1, [s]) = (mult, pts)"
    by (cases "equivLoop (reducedOperations pat) s (1, [s])")
  have ne: "pts \<noteq> []" using equivLoop_nonempty [OF e] by simp
  then have "1 \<le> length pts" by (cases pts) simp_all
  then show "minTwoTheta pat \<le> TwoThetaDeg p \<and> TwoThetaDeg p \<le> maxTwoTheta pat
     \<and> multiplicity p = real (length (equivHKL p)) \<and> 1 \<le> length (equivHKL p)"
    using assms e
    by (auto simp: seedPeak_def Let_def newCalculatedPeak_fields seedTwoTheta_def outsideWindow_def
        split: if_splits)
  show "peakMethod p = patternMethod pat \<and> wavelength p = patternWavelength pat
     \<and> recipLatVecs p \<noteq> []"
    using assms e ne
    by (auto simp: seedPeak_def Let_def newCalculatedPeak_fields split: if_splits)
qed

lemma stored_reflection:
  assumes "q \<in> set (reflections (calculatePeakLocations it pat))"
  shows "minTwoTheta pat \<le> TwoThetaDeg q \<and> TwoThetaDeg q \<le> maxTwoTheta pat
     \<and> multiplicity q = real (length (equivHKL q)) \<and> 1 \<le> length (equivHKL q)"
    and "peakMethod q = patternMethod pat \<and> wavelength q = patternWavelength pat
     \<and> recipLatVecs q \<noteq> []"
proof -
  from assms obtain d p where
    d: "d \<in> set (List.map_filter (seedPeak it pat) (seedList (hklRange pat)))" and
    p: "p \<in> set (List.map_filter (seedPeak it pat) (seedList (hklRange pat)))" and
    q: "q = assignPeak d p"
    unfolding reflections_calculatePeakLocations by (blast dest: sortReflections_from)
  from d obtain s where s: "seedPeak it pat s = Some d" by (auto simp: set_map_filter)
  from p obtain s' where s': "seedPeak it pat s' = Some p" by (auto simp: set_map_filter)
  show "minTwoTheta pat \<le> TwoThetaDeg q \<and> TwoThetaDeg q \<le> maxTwoTheta pat
     \<and> multiplicity q = real (length (equivHKL q)) \<and> 1 \<le> length (equivHKL q)"
    using seedPeak_Some(1) [OF s'] by (simp add: q assignPeak_fields)
  show "peakMethod q = patternMethod pat \<and> wavelength q = patternWavelength pat
     \<and> recipLatVecs q \<noteq> []"
    using seedPeak_Some(2) [OF s] by (simp add: q assignPeak_fields)
qed

lemma canonical_seed_stored:
  assumes "redHKL \<in> set (seedList (hklRange pat))"
    and "equivLoop (reducedOperations pat) redHKL (1, [redHKL]) = (mult, equivPoints)"
    and "mult \<noteq> 0"
    and "\<not> outsideWindow pat
            (seedTwoTheta pat (mvmul (transpose3 (unitPointToReduced (structureBasis pat))) redHKL))"
  shows "\<exists>d. peakMethod d = patternMethod pat \<and> wavelength d = patternWavelength pat
         \<and> recipLatVecs d \<noteq> []
         \<and> assignPeak d
             (newCalculatedPeak (patternMethod pat) (structureBasis pat) (patternWavelength pat)
                (mvmul (transpose3 (unitPointToReduced (structureBasis pat))) redHKL)
                (map (mvmul (transpose3 (unitPointToReduced (structureBasis pat)))) equivPoints))
             \<in> set (reflections (calculatePeakLocations it pat))"
proof -
  let ?v = "mvmul (transpose3 (unitPointToReduced (structureBasis pat))) redHKL"
  let ?e = "map (mvmul (transpose3 (unitPointToReduced (structureBasis pat)))) equivPoints"
  let ?p = "newCalculatedPeak (patternMethod pat) (structureBasis pat) (patternWavelength pat) ?v ?e"
  have "seedPeak it pat redHKL = Some ?p"
    using assms(2-4) by (simp add: seedPeak_def Let_def)
  then have "?p \<in> set (List.map_filter (seedPeak it pat) (seedList (hklRange pat)))"
    using assms(1) by (auto simp: set_map_filter)
  from sortReflections_to [OF this] obtain d where
    d: "d \<in> set (List.map_filter (seedPeak it pat) (seedList (hklRange pat)))" and
    m: "assignPeak d ?p \<in> set (reflections (calculatePeakLocations it pat))"
    unfolding reflections_calculatePeakLocations by blast
  from d obtain s where "seedPeak it pat s = Some d" by (auto simp: set_map_filter)
  from seedPeak_Some(2) [OF this] m show ?thesis by blast
qed

lemma canonical_seed_kept:
  assumes "redHKL \<in> set (seedList (hklRange pat))"
    and "equivLoop (reducedOperations pat) redHKL (1, [redHKL]) = (mult, equivPoints)"
    and "mult \<noteq> 0"
    and "\<not> outsideWindow pat
            (seedTwoTheta pat (mvmul (transpose3 (unitPointToReduced (structureBasis pat))) redHKL))"
  shows "\<exists>q \<in> set (reflections (calculatePeakLocations it pat)).
           hkl q = mvmul (transpose3 (unitPointToReduced (structureBasis pat))) redHKL
         \<and> equivHKL q = map (mvmul (transpose3 (unitPointToReduced (structureBasis pat)))) equivPoints
         \<and> TwoThetaDeg q
             = seedTwoTheta pat (mvmul (transpose3 (unitPointToReduced (structureBasis pat))) redHKL)
         \<and> multiplicity q = real (length equivPoints)"
proof -
  from canonical_seed_stored [OF assms] obtain d where
    "assignPeak d
       (newCalculatedPeak (patternMethod pat) (structureBasis pat) (patternWavelength pat)
          (mvmul (transpose3 (unitPointToReduced (structureBasis pat))) redHKL)
          (map (mvmul (transpose3 (unitPointToReduced (structureBasis pat)))) equivPoints))
       \<in> set (reflections (calculatePeakLocations it pat))" by blast
  then show ?thesis
    by (rule bexI [rotated])
      (simp add: assignPeak_fields newCalculatedPeak_fields seedTwoTheta_def)
qed

lemma seedList_mem:
  "- r0 \<le> h \<Longrightarrow> h \<le> r0 \<Longrightarrow> - r1 \<le> k \<Longrightarrow> k \<le> r1 \<Longrightarrow> - r2 \<le> l \<Longrightarrow> l \<le> r2 \<Longrightarrow>
   (real_of_int h, real_of_int k, real_of_int l) \<in> set (seedList (r0, r1, r2))"
  by (simp add: seedList_def) (use atLeastAtMost_iff in blast)

lemma axisRange_pos: "0 < x \<Longrightarrow> 1 \<le> axisRange x (1, 0, 0) \<and> 1 \<le> axisRange x (0, 1, 0) \<and> 1 \<le> axisRange x (0, 0, 1)"
  by (simp add: axisRange_def magnitude_def)

lemma sin50: "0 < sin (toRadians (100 / 2))"
  by (rule sin_gt_zero) (simp_all add: toRadians_def)

lemma seed100_cubic:
  assumes "structureBasis pat = unitCubicBasis" "maxTwoTheta pat = 100" "patternWavelength pat = 1"
  shows "(1, 0, 0) \<in> set (seedList (hklRange pat))"
proof -
  obtain r0 r1 r2 where r: "hklRange pat = (r0, r1, r2)" by (cases "hklRange pat") auto
  have "1 \<le> r0 \<and> 1 \<le> r1 \<and> 1 \<le> r2"
    using r assms axisRange_pos [of "2 * sin (toRadians (100 / 2))"] sin50
    by (simp add: hklRange_def unitCubicBasis_def identity3_def Let_def)
  then show ?thesis
    using seedList_mem [of r0 1 r1 0 r2 0] r by simp
qed

lemma seedTwoTheta_100:
  assumes "structureBasis pat = unitCubicBasis" "patternWavelength pat = 1"
  shows "seedTwoTheta pat (1, 0, 0) = 60"
  using assms by (simp add: seedTwoTheta_def getDiffractionAngle_100 toDegrees_def)

lemma convHKL_cubic: "mvmul (transpose3 (unitPointToReduced unitCubicBasis)) v = v"
  by (cases v) (simp add: unitCubicBasis_def identity3_def)

lemma cubic_fields:
  "structureBasis cubicPattern = unitCubicBasis" "patternWavelength cubicPattern = 1"
  "maxTwoTheta cubicPattern = 100" "minTwoTheta cubicPattern = 10" 
  "patternMethod cubicPattern = DM_NONE" "symmetryOperations cubicPattern = []"
  by (simp_all add: cubicPattern_def newCalculatedPattern_def
      Diffraction.extend_def CalculatedPattern.fields_def newDiffraction_def)

lemma summary_member:
  assumes "\<exists>q \<in> set ps. hkl q = v \<and> equivHKL q = e \<and> TwoThetaDeg q = a \<and> multiplicity q = m"
  shows "(v, a, m) \<in> set (map peakSummary ps)"
  using assms by (force simp: peakSummary_def)

text \<open>
  Claim C5. Every reflection that \<^verbatim>\<open>calculatePeakLocations\<close> stores has its angle
  \<open>two_theta_deg\<close> inside the window \<open>[_minTwoTheta, _maxTwoTheta]\<close>, its multiplicity is
  the number of its equivalent \<open>hkl\<close>, which is at least 1, and the list of reflections is
  sorted ascending by \<open>two_theta_deg\<close>.
\<close>

theorem calculatePeakLocations_window_sorted:
  "(\<forall>p \<in> set (reflections (calculatePeakLocations it pat)).
      minTwoTheta pat \<le> TwoThetaDeg p \<and> TwoThetaDeg p \<le> maxTwoTheta pat
      \<and> multiplicity p = real (length (equivHKL p)) \<and> 1 \<le> length (equivHKL p))
   \<and> sorted (map TwoThetaDeg (reflections (calculatePeakLocations it pat)))"
proof -
  have "sorted (map TwoThetaDeg (reflections (calculatePeakLocations it pat)))"
    by (simp add: reflections_calculatePeakLocations sortReflections_angles)
  then show ?thesis
    using stored_reflection(1) by blast
qed

text \<open>
  The theorem at the default window \<open>[10, 100]\<close> on the unit cubic cell, wavelength 1: the
  reflection (100), at 60 degrees and of multiplicity 1, is in the list.
\<close>

theorem calculatePeakLocations_window_sorted_witness:
  "((1, 0, 0), 60, 1)
        \<in> set (map peakSummary (reflections (calculatePeakLocations (\<lambda>R t. t) cubicPattern)))
   \<and> minTwoTheta cubicPattern \<le> 60 \<and> 60 \<le> maxTwoTheta cubicPattern
   \<and> sorted (map TwoThetaDeg (reflections (calculatePeakLocations (\<lambda>R t. t) cubicPattern)))"
proof -
  have 1: "(1, 0, 0) \<in> set (seedList (hklRange cubicPattern))"
    by (rule seed100_cubic) (simp_all add: cubic_fields)
  have 2: "equivLoop (reducedOperations cubicPattern) (1, 0, 0) (1, [(1, 0, 0)]) = (1, [(1, 0, 0)])"
    by (simp add: reducedOperations_def cubic_fields)
  have 3: "\<not> outsideWindow cubicPattern (seedTwoTheta cubicPattern (1, 0, 0))"
    by (simp add: outsideWindow_def seedTwoTheta_100 cubic_fields)
  have "\<exists>q \<in> set (reflections (calculatePeakLocations (\<lambda>R t. t) cubicPattern)).
      hkl q = (1, 0, 0) \<and> equivHKL q = [(1, 0, 0)] \<and> TwoThetaDeg q = 60 \<and> multiplicity q = 1"
    using canonical_seed_kept [of "(1, 0, 0)" cubicPattern 1 "[(1, 0, 0)]" "\<lambda>R t. t"] 1 2 3
    by (simp add: cubic_fields convHKL_cubic seedTwoTheta_100)
  from summary_member [OF this] show ?thesis
    using calculatePeakLocations_window_sorted [of "\<lambda>R t. t" cubicPattern]
    by (simp add: cubic_fields)
qed

section \<open>The structure factor of orbits closed under a translation\<close>























section \<open>Systematic absences\<close>

















section \<open>Reflections of negative squared width\<close>

lemma dless_NaN [simp]: "dless a NaN = False"
  by (cases a) simp_all

lemma lift2_NaN [simp]: "lift2 f a NaN = NaN"
  by (cases a) simp_all

lemma skipBelow_NaN: "skipBelow beyond twoTheta NaN a = Some (Suc a)"
  by (subst skipBelow.simps) simp

lemma addProfile_NaN: "addProfile beyond twoTheta profile NaN a out = out"
  by (subst addProfile.simps) simp

lemma peakSignal_NaN:
  assumes "cagliotiHsq pat p < 0"
  shows "peakSignal beyond pat twoTheta p out = Inr out"
proof -
  have H: "dsqrt (cagliotiHsq pat p) = NaN" using assms by (simp add: dsqrt_def)
  show ?thesis
    by (simp add: peakSignal_def Let_def H skipBelow_NaN addProfile_NaN)
qed

lemma peakSignal_reflections [simp]:
  "peakSignal beyond (pat\<lparr> reflections := r \<rparr>) = peakSignal beyond pat"
  by (intro ext) (simp add: peakSignal_def cagliotiHsq_def peakShift_def)

lemma peakSignals_reflections [simp]:
  "peakSignals beyond (pat\<lparr> reflections := r \<rparr>) twoTheta ps = peakSignals beyond pat twoTheta ps"
  by (induction ps) (auto intro!: ext)

lemma peakSignals_append:
  "peakSignals beyond pat twoTheta (ps @ qs) out
   = bind (peakSignals beyond pat twoTheta ps out) (peakSignals beyond pat twoTheta qs)"
  by (induction ps arbitrary: out) (auto simp: bind_def split: sum.splits)

lemma backgroundAt_reflections [simp]:
  "backgroundAt (pat\<lparr> reflections := r \<rparr>) = backgroundAt pat"
  by (intro ext) (simp add: backgroundAt_def split: list.splits)

lemma generateBackgroundSignal_reflections [simp]:
  "generateBackgroundSignal (pat\<lparr> reflections := r \<rparr>) = generateBackgroundSignal pat"
  by (intro ext) (simp add: generateBackgroundSignal_def)

text \<open>
  Claim C4. A reflection whose Caglioti expression \<open>W + tan \<theta> (V + U tan \<theta>)\<close> is negative
  is skipped: its step of the loop of \<^verbatim>\<open>generatePeakSignal\<close> returns the output as it
  found it, at every grid angle, and the result of \<^verbatim>\<open>getDiffractedIntensity\<close> is the one
  of the pattern without that reflection, so the contributions of the other reflections
  and of the background are what they are without it. The width \<open>H\<close> is NaN, every
  comparison with the bounds of the window is false, whatever the angle read (in the grid
  or behind it), and the loop that adds the profile does not run.
\<close>

theorem getDiffractedIntensity_skips_negative_width:
  assumes "reflections pat = ps @ p # qs"
    and "cagliotiHsq pat p < 0"
  shows "peakSignal beyond pat twoTheta p out = Inr out
     \<and> getDiffractedIntensity beyond pat twoTheta
         = getDiffractedIntensity beyond (pat\<lparr> reflections := ps @ qs \<rparr>) twoTheta"
proof -
  have "peakSignals beyond pat twoTheta (ps @ p # qs) out'
      = peakSignals beyond pat twoTheta (ps @ qs) out'" for out'
    by (simp add: peakSignals_append bind_def peakSignal_NaN [OF assms(2)] split: sum.splits)
  then show ?thesis
    by (simp add: getDiffractedIntensity_def generatePeakSignal_def assms(1)
        peakSignal_NaN [OF assms(2)])
qed

lemma narrow_fields:
  "reflections narrowPattern = [peak100 1]" "backgroundParameters narrowPattern = []"
  by (simp_all add: narrowPattern_def pattern100_def newCalculatedPattern_def
      Diffraction.extend_def CalculatedPattern.fields_def)

lemma sqrt3: "sqrt 3 < 40 / 21"
proof -
  have "sqrt 3 < sqrt ((40 / 21)\<^sup>2)"
    unfolding real_sqrt_less_iff by (simp add: power2_eq_square)
  then show ?thesis by simp
qed

lemma tanDouble_30: "tanDouble (pi / 6) = 1 / sqrt 3"
  by (simp add: tanDouble_def tan_30)

lemma tanDouble_45: "tanDouble (pi / 4) = 1"
  by (simp add: tanDouble_def tan_45)

lemma narrow_Hsq: "cagliotiHsq narrowPattern (peak100 1) < 0"
proof -
  have r: "getAngleRadians (peak100 1) = pi / 3"
    by (simp add: getAngleRadians_def peak100_def newCalculatedPeak_def updatePeakPosition_def
        Let_def getDiffractionAngle_100)
  have "3 / 10 < 1 / sqrt 3" using sqrt3 by (simp add: field_simps)
  then show ?thesis
    by (simp add: cagliotiHsq_def r tanDouble_30 narrowPattern_def)
qed

lemma arcsin_sqrt2: "arcsin (sqrt 2 / 2) = pi / 4"
  using arcsin_sin [of "pi / 4"] by (simp add: sin_45)

lemma getDiffractionAngle_110: "getDiffractionAngle unitCubicBasis (1, 1, 0) 1 = pi / 4"
proof -
  have "sqrt 2 \<le> 2" using real_sqrt_le_iff [of 2 4] by simp
  moreover have "- 2 \<le> sqrt 2" using real_sqrt_ge_zero [of 2] by linarith
  ultimately show ?thesis
    by (simp add: getDiffractionAngle_def unitCubicBasis_def identity3_def magnitude_def
        arcsin_sqrt2 Let_def)
qed

lemma strong_fields:
  "getAngleRadians strong100 = pi / 3" "getAngle strong100 = 60" "getIntensity strong100 = 10"
  "getAngleRadians strong110 = pi / 2" "getAngle strong110 = 90" "getIntensity strong110 = 10"
  by (simp_all add: strong100_def strong110_def peak100_def getAngleRadians_def getAngle_def
      getIntensity_def newCalculatedPeak_def updatePeakPosition_def Let_def
      getDiffractionAngle_100 getDiffractionAngle_110 toDegrees_def)

lemma mixed_fields:
  "reflections mixedPattern = [strong100, strong110]" "backgroundParameters mixedPattern = [1]"
  "U mixedPattern = 30" "V mixedPattern = - 40" "W mixedPattern = 11"
  "eta0 mixedPattern = 0" "eta1 mixedPattern = 0" "eta2 mixedPattern = 0"
  "shiftParameters mixedPattern = (\<lambda>i. 0)" "maxTwoTheta mixedPattern = 100"
  "numBackground mixedPattern = 5" "useChebyshev mixedPattern"
  by (simp_all add: mixedPattern_def newCalculatedPattern_def
      Diffraction.extend_def CalculatedPattern.fields_def newDiffraction_def)

lemma mixed_Hsq:
  "cagliotiHsq mixedPattern strong100 < 0" "cagliotiHsq mixedPattern strong110 = 1"
proof -
  have "sqrt ((63 / 40)\<^sup>2) < sqrt 3"
    unfolding real_sqrt_less_iff by (simp add: power2_eq_square)
  then have "63 < sqrt 3 * 40" by simp
  then have "11 + (30 / sqrt 3 - 40) / sqrt 3 < 0"
    by (simp add: field_simps)
  then show "cagliotiHsq mixedPattern strong100 < 0"
    by (simp add: cagliotiHsq_def strong_fields mixed_fields tanDouble_30 field_simps)
  show "cagliotiHsq mixedPattern strong110 = 1"
    by (simp add: cagliotiHsq_def strong_fields mixed_fields tanDouble_45)
qed

lemma mixed_background:
  "generateBackgroundSignal mixedPattern mixedGrid = Inr [1, 1, 1, 1]"
  by (simp add: generateBackgroundSignal_def backgroundAt_def mixed_fields mixedGrid_def)

lemma mixed_start: "replicate (length mixedGrid) (Fin 0) = [Fin 0, Fin 0, Fin 0, Fin 0]"
  by (simp add: mixedGrid_def numeral_eq_Suc)

lemma mixed_signal:
  "peakSignal zeroMemory mixedPattern mixedGrid strong110 [Fin 0, Fin 0, Fin 0, Fin 0]
   = Inr [Fin 0, Fin 0, Fin (20 / pi), Fin (20 / (17 * pi))]"
proof -
  have lb: "lowerBound mixedGrid (Fin 84) = 1"
    by (simp add: lowerBound_def mixedGrid_def)
  have sk: "skipBelow zeroMemory mixedGrid (Fin 84) (Suc 0) = Some 2"
    by (subst skipBelow.simps) (simp add: readAngle_def mixedGrid_def numeral_2_eq_2)
  have a4: "addProfile zeroMemory mixedGrid f (Fin 96) 4 out = out" for f out
    by (subst addProfile.simps) (simp add: readAngle_def mixedGrid_def)
  have a3: "addProfile zeroMemory mixedGrid f (Fin 96) 3 out
      = out[3 := lift2 (+) (out ! 3) (f 92)]" for f out
    by (subst addProfile.simps) (simp add: readAngle_def mixedGrid_def a4 numeral_3_eq_3)
  have a2: "addProfile zeroMemory mixedGrid f (Fin 96) 2 out
      = (out[2 := lift2 (+) (out ! 2) (f 90)])[3 := lift2 (+) (out[2 := lift2 (+) (out ! 2) (f 90)] ! 3) (f 92)]"
    for f out
    by (subst addProfile.simps) (simp add: readAngle_def mixedGrid_def a3)
  have p90: "profileAt 10 0 90 (Fin 1) 90 = Fin (20 / pi)"
    by (simp add: profileAt_def Let_def)
  have p92: "profileAt 10 0 90 (Fin 1) 92 = Fin (20 / (17 * pi))"
    by (simp add: profileAt_def Let_def)
  have H: "dsqrt (cagliotiHsq mixedPattern strong110) = Fin 1"
    by (simp add: mixed_Hsq dsqrt_def)
  have sh: "peakShift mixedPattern (pi / 2) = 0"
    by (simp add: peakShift_def mixed_fields)
  have lo: "lift2 (-) (Fin (90 + 0)) (lift2 (*) (Fin 6) (Fin 1)) = Fin 84"
    and hi: "lift2 (+) (Fin (90 + 0)) (lift2 (*) (Fin 6) (Fin 1)) = Fin 96"
    and et: "0 + 90 * (0 + 90 * 0) = (0::real)"
    by simp_all
  have ge: "\<not> dge (Fin 84) (Fin 100)" by simp
  have sk1: "skipBelow zeroMemory mixedGrid (Fin 84) 1 = Some 2"
    using sk by simp
  show ?thesis
    unfolding peakSignal_def Let_def strong_fields mixed_fields H sh lo hi et lb sk1
    by (simp only: ge if_False option.case a2 p90 p92)
      (simp add: numeral_2_eq_2 numeral_3_eq_3 p90 p92)
qed

text \<open>
  The theorem at the reflection (100) of the unit cubic cell, followed by the reflection
  (110), with the background 1 and \<open>U = 30\<close>, \<open>V = -40\<close>, \<open>W = 11\<close>, on the grid 60, 88, 90,
  92 degrees: (100) adds nothing, and the result is the background plus the Lorentzian of
  (110), of width 1, at 90 and 92 degrees.
\<close>

theorem getDiffractedIntensity_skips_negative_width_witness:
  "reflections mixedPattern = [] @ strong100 # [strong110]
   \<and> cagliotiHsq mixedPattern strong100 < 0
   \<and> peakSignal zeroMemory mixedPattern mixedGrid strong100 [Fin 0, Fin 0, Fin 0, Fin 0]
       = Inr [Fin 0, Fin 0, Fin 0, Fin 0]
   \<and> getDiffractedIntensity zeroMemory mixedPattern mixedGrid
       = Inr [Fin 1, Fin 1, Fin (1 + 20 / pi), Fin (1 + 20 / (17 * pi))]"
proof -
  have e: "getDiffractedIntensity zeroMemory (mixedPattern\<lparr> reflections := [] @ [strong110] \<rparr>)
      mixedGrid = Inr [Fin 1, Fin 1, Fin (1 + 20 / pi), Fin (1 + 20 / (17 * pi))]"
    by (simp add: getDiffractedIntensity_def generatePeakSignal_def mixed_background bind_def
        mixed_start mixed_signal)
  show ?thesis
    using getDiffractedIntensity_skips_negative_width [of mixedPattern "[]" strong100
        "[strong110]" zeroMemory mixedGrid "[Fin 0, Fin 0, Fin 0, Fin 0]"] mixed_Hsq(1) e
    by (simp add: mixed_fields)
qed

text \<open>
  On a grid of a single angle the loops read \<^verbatim>\<open>twoTheta[1]\<close>, behind the grid; the
  comparisons are with NaN and nothing is added, whatever the memory holds there.
\<close>

lemma getDiffractedIntensity_single_angle:
  "getDiffractedIntensity beyond narrowPattern [20] = Inr [Fin 0]"
  by (simp add: getDiffractedIntensity_def generateBackgroundSignal_def generatePeakSignal_def
      narrow_fields bind_def peakSignal_NaN [OF narrow_Hsq])

text \<open>
  The Caglioti expression of a reflection whose half angle is clamped to \<open>\<pi>/2\<close>.
\<close>

lemma cagliotiHsq_clamped:
  assumes "getAngleRadians p = pi"
  shows "cagliotiHsq pat p = W pat + tanHalfPi * (V pat + U pat * tanHalfPi)"
  using assms by (simp add: cagliotiHsq_def tanDouble_def)

section \<open>The divergence guard of the staged refinement\<close>

lemma bind_eq_Inr: "bind m f = Inr y \<longleftrightarrow> (\<exists>x. m = Inr x \<and> f x = Inr y)"
  by (cases m) (simp_all add: bind_def)

lemma refineCall_Inr:
  assumes "refineCall K (pat, calls) = Inr ((pat', calls'), r)"
  shows "calls' = calls @ [currentlyRefining pat] \<and> currentlyRefining pat' = currentlyRefining pat
     \<and> maxLatChange pat' = maxLatChange pat"
  using assms by (auto simp: refineCall_def bind_eq_Inr)

lemma stagesToWidth_calls:
  assumes "stagesToWidth K pat0 = Inr ((pat, calls), curR)"
  shows "(\<forall>S \<in> set calls. S \<inter> laterKinds = {}) \<and> currentlyRefining pat \<inter> laterKinds = {}"
  using assms
  unfolding stagesToWidth_def
  by (auto dest!: refineCall_Inr simp: bind_eq_Inr laterKinds_def split: if_splits)

lemma empty_fields: "reflections emptyPattern = []" "maxLatChange emptyPattern = 5 / 100"
  by (simp_all add: emptyPattern_def newCalculatedPattern_def
      Diffraction.extend_def CalculatedPattern.fields_def)

lemma empty_intensities:
  "calculatePeakIntensities (emptyPattern\<lparr> currentlyRefining := {} \<rparr>)
   = Inr (emptyPattern\<lparr> currentlyRefining := {} \<rparr>)"
  by (simp add: calculatePeakIntensities_def bind_def emptyPattern_def newCalculatedPattern_def
      Diffraction.extend_def CalculatedPattern.fields_def)

lemma poorFit_prefix: "stagesToWidth poorFit emptyPattern = Inr ((poorFitPattern, poorFitCalls), 1)"
  by (simp add: stagesToWidth_def empty_intensities refineCall_def poorFit_def bind_def
      empty_fields poorFitPattern_def poorFitCalls_def insert_commute)

text \<open>
  Claim C7. If the R factor that \<^verbatim>\<open>runRefinement\<close> reports at the end of the stage of
  the peak width exceeds 0.9, \<^verbatim>\<open>rietveldRefinement\<close> returns the state reached at that
  point: the pattern is the one the width stage left, no further call of
  \<^verbatim>\<open>runRefinement\<close> is logged, and neither a logged call nor the final value of
  \<^verbatim>\<open>_currentlyRefining\<close> contains one of \<open>POSITIONS\<close>, \<open>TEXTURE\<close>, \<open>BFACTORS\<close>,
  \<open>UVFACTORS\<close>, \<open>ZEROSHIFT\<close>.
\<close>

theorem rietveldRefinement_aborts_on_poor_fit:
  assumes "stagesToWidth K pat0 = Inr ((pat, calls), curR)"
    and "curR > 9 / 10"
  shows "rietveldRefinement K toRefine pat0 = Inr (pat, calls)
     \<and> (\<forall>S \<in> set calls. S \<inter> laterKinds = {})
     \<and> currentlyRefining pat \<inter> laterKinds = {}"
  using assms stagesToWidth_calls [OF assms(1)]
  by (simp add: rietveldRefinement_def bind_def)

text \<open>
  The theorem for kernels that always report the R factor 1, with positions and B factors
  requested: the driver stops after eight calls.
\<close>

theorem rietveldRefinement_aborts_on_poor_fit_witness:
  "stagesToWidth poorFit emptyPattern = Inr ((poorFitPattern, poorFitCalls), 1)
   \<and> (1::real) > 9 / 10
   \<and> rietveldRefinement poorFit {RF_POSITIONS, RF_BFACTORS} emptyPattern
       = Inr (poorFitPattern, poorFitCalls)"
  using rietveldRefinement_aborts_on_poor_fit [of poorFit emptyPattern poorFitPattern poorFitCalls 1 "{RF_POSITIONS, RF_BFACTORS}"]
    poorFit_prefix
  by simp

lemma bind_InrE:
  assumes "bind m f = Inr y"
  obtains x where "m = Inr x" "f x = Inr y"
  using assms by (cases m) (simp_all add: bind_def)

lemma stageOf_Inr:
  assumes "stageOf K parameter st = Inr st'"
  shows "snd st' = snd st @ [insert parameter (currentlyRefining (fst st))]"
    and "currentlyRefining (fst st') = insert parameter (currentlyRefining (fst st))"
proof -
  obtain pat calls where st: "st = (pat, calls)" by (cases st)
  obtain pat' calls' where st': "st' = (pat', calls')" by (cases st')
  from assms obtain x where
    x: "refineCall K (pat\<lparr> currentlyRefining := insert parameter (currentlyRefining pat) \<rparr>, calls)
          = Inr x" and y: "(case x of (s, curR) \<Rightarrow> Inr s) = (Inr st' :: error + DriverState)"
    unfolding stageOf_def st by (auto elim: bind_InrE)
  obtain r where "x = ((pat', calls'), r)" using y st' by (cases x) auto
  with x have "refineCall K
      (pat\<lparr> currentlyRefining := insert parameter (currentlyRefining pat) \<rparr>, calls)
      = Inr ((pat', calls'), r)" by simp
  from refineCall_Inr [OF this]
  have "calls' = calls @ [insert parameter (currentlyRefining pat)]
      \<and> currentlyRefining pat' = insert parameter (currentlyRefining pat)"
    by simp
  then show "snd st' = snd st @ [insert parameter (currentlyRefining (fst st))]"
    and "currentlyRefining (fst st') = insert parameter (currentlyRefining (fst st))"
    by (simp_all add: st st')
qed

text \<open>
  The guard is what stops the driver: when the R factor after the width stage is at most 0.9
  and the driver returns, its last logged call refines the texture, the width parameters
  \<open>U\<close>, \<open>V\<close> and the zero shift together.
\<close>

lemma rietveldRefinement_continues:
  assumes "stagesToWidth K pat0 = Inr (st, curR)"
    and "\<not> curR > 9 / 10"
    and "rietveldRefinement K toRefine pat0 = Inr st'"
  shows "{RF_TEXTURE, RF_UVFACTORS, RF_ZEROSHIFT} \<subseteq> last (snd st')"
proof -
  have "stagesAfterWidth K toRefine st = Inr st'"
    using assms by (simp add: rietveldRefinement_def bind_def)
  then obtain st1 where
    r1: "bind (stageOf K RF_TEXTURE st1) (\<lambda>st2.
           bind (if willRefine RF_BFACTORS toRefine then stageOf K RF_BFACTORS st2 else Inr st2)
             (\<lambda>st3. bind (stageOf K RF_UVFACTORS st3) (\<lambda>st4. stageOf K RF_ZEROSHIFT st4)))
         = Inr st'"
    unfolding stagesAfterWidth_def by (rule bind_InrE)
  from r1 obtain st2 where s2: "stageOf K RF_TEXTURE st1 = Inr st2" and
    r2: "bind (if willRefine RF_BFACTORS toRefine then stageOf K RF_BFACTORS st2 else Inr st2)
             (\<lambda>st3. bind (stageOf K RF_UVFACTORS st3) (\<lambda>st4. stageOf K RF_ZEROSHIFT st4))
         = Inr st'"
    by (rule bind_InrE)
  from r2 obtain st3 where
    s3: "(if willRefine RF_BFACTORS toRefine then stageOf K RF_BFACTORS st2 else Inr st2) = Inr st3"
    and r3: "bind (stageOf K RF_UVFACTORS st3) (\<lambda>st4. stageOf K RF_ZEROSHIFT st4) = Inr st'"
    by (rule bind_InrE)
  from r3 obtain st4 where s4: "stageOf K RF_UVFACTORS st3 = Inr st4"
    and s5: "stageOf K RF_ZEROSHIFT st4 = Inr st'"
    by (rule bind_InrE)
  have t2: "RF_TEXTURE \<in> currentlyRefining (fst st2)"
    using stageOf_Inr(2) [OF s2] by simp
  have t3: "RF_TEXTURE \<in> currentlyRefining (fst st3)"
  proof (cases "willRefine RF_BFACTORS toRefine")
    case True
    then show ?thesis using s3 stageOf_Inr(2) [of K RF_BFACTORS st2 st3] t2 by simp
  next
    case False
    then show ?thesis using s3 t2 by simp
  qed
  have t4: "currentlyRefining (fst st4) = insert RF_UVFACTORS (currentlyRefining (fst st3))"
    by (rule stageOf_Inr(2) [OF s4])
  have "last (snd st') = insert RF_ZEROSHIFT (currentlyRefining (fst st4))"
    using stageOf_Inr(1) [OF s5] by simp
  then show ?thesis using t3 t4 by simp
qed

section \<open>Failures of the processing of a raw pattern\<close>

lemma groupLoop_good:
  "goodGroups n gs \<Longrightarrow> \<forall>k \<in> set rest. k < n \<Longrightarrow> goodGroups n (groupLoop ptt rest gs)"
proof (induction rest arbitrary: gs)
  case Nil
  then show ?case by simp
next
  case (Cons peak rest)
  have 1: "goodGroups n (butlast gs @ [last gs @ [peak]])"
    using Cons.prems by (auto simp: goodGroups_def dest: in_set_butlastD)
  have 2: "goodGroups n (gs @ [[peak]])"
    using Cons.prems by (auto simp: goodGroups_def)
  show ?case
    using Cons.IH [OF 1] Cons.IH [OF 2] Cons.prems(2) by (simp add: Let_def)
qed

lemma peakGroups_good: "ptt \<noteq> [] \<Longrightarrow> goodGroups (length ptt) (peakGroups ptt)"
  unfolding peakGroups_def
  by (rule groupLoop_good) (auto simp: goodGroups_def)

lemma integratePeaks_outcome:
  assumes "\<forall>k \<in> set g. k < length ps"
  shows "snd (integratePeaks K lo hi ps gmin gmax g peaks)
     = (if \<exists>k \<in> set g. failsChecks K lo hi (ps ! k) gmin gmax then Some (Thrown 10) else None)"
  using assms
  by (induction g arbitrary: peaks) (auto simp: nth_opt_def failsChecks_def Let_def)

lemma integrateGroups_outcome:
  assumes "\<forall>g \<in> set gs. \<forall>k \<in> set g. k < length ps"
  shows "snd (integrateGroups K lo hi ptt ps gs peaks)
     = (if \<exists>g \<in> set gs. \<exists>k \<in> set g.
             failsChecks K lo hi (ps ! k) (hd (ptt ! hd g)) (last (ptt ! last g))
        then Some (Thrown 10) else None)"
  using assms
proof (induction gs arbitrary: peaks)
  case Nil
  then show ?case by simp
next
  case (Cons g gs)
  have g: "\<forall>k \<in> set g. k < length ps" using Cons.prems by simp
  have gs: "\<forall>g \<in> set gs. \<forall>k \<in> set g. k < length ps" using Cons.prems by simp
  note inner = integratePeaks_outcome [OF g, of K lo hi "hd (ptt ! hd g)" "last (ptt ! last g)" peaks]
  show ?case
  proof (cases "integratePeaks K lo hi ps (hd (ptt ! hd g)) (last (ptt ! last g)) g peaks")
    case (Pair peaks' r)
    then show ?thesis
      using inner Cons.IH [OF gs, of peaks']
      by (cases r) (auto simp: Let_def split: if_splits)
  qed
qed


lemma raw_nonempty: "\<not> alreadyProcessed xs \<Longrightarrow> xs \<noteq> []"
  by (auto simp: alreadyProcessed_def spacing_def)

lemma sorted_take:
  "length twoTheta0 \<le> length intensity0 \<Longrightarrow>
   take (length (sortedAngles twoTheta0 intensity0)) (sortedIntensities twoTheta0 intensity0)
   = map snd (sort (zip twoTheta0 intensity0))"
  by (simp add: sortedAngles_def sortedIntensities_def)

lemma getPeakIntensities_throws:
  assumes "wellShaped ptt pint"
    and "length (fitPeaks K ptt pint (peakGroups ptt)) = length ptt"
    and "somePeakFails K (minTwoTheta pat) (maxTwoTheta pat) ptt (fitPeaks K ptt pint (peakGroups ptt))"
  shows "snd (getPeakIntensities K ptt pint pat) = Some (Thrown 10)"
    and "fst (getPeakIntensities K ptt pint pat)
       = pat\<lparr> diffractionPeaks := diffractionPeaks (fst (getPeakIntensities K ptt pint pat)) \<rparr>"
proof -
  have ne: "ptt \<noteq> []" using assms(1) by (simp add: wellShaped_def)
  have idx: "\<forall>g \<in> set (peakGroups ptt). \<forall>k \<in> set g.
      k < length (fitPeaks K ptt pint (peakGroups ptt))"
    using peakGroups_good [OF ne] assms(2) by (simp add: goodGroups_def)
  have bad: "\<exists>g \<in> set (peakGroups ptt). \<exists>k \<in> set g.
      failsChecks K (minTwoTheta pat) (maxTwoTheta pat) (fitPeaks K ptt pint (peakGroups ptt) ! k)
        (hd (ptt ! hd g)) (last (ptt ! last g))"
    using assms(3) by (simp add: somePeakFails_def list_ex_iff)
  note out = integrateGroups_outcome [OF idx, of K "minTwoTheta pat" "maxTwoTheta pat" ptt "[]"]
  obtain peaks thrown where ig: "integrateGroups K (minTwoTheta pat) (maxTwoTheta pat) ptt
      (fitPeaks K ptt pint (peakGroups ptt)) (peakGroups ptt) [] = (peaks, thrown)"
    by (cases "integrateGroups K (minTwoTheta pat) (maxTwoTheta pat) ptt
      (fitPeaks K ptt pint (peakGroups ptt)) (peakGroups ptt) []")
  have "thrown = Some (Thrown 10)" using out bad ig by simp
  then show "snd (getPeakIntensities K ptt pint pat) = Some (Thrown 10)"
    using ig assms(1) by (simp add: getPeakIntensities_def Let_def)
  show "fst (getPeakIntensities K ptt pint pat)
       = pat\<lparr> diffractionPeaks := diffractionPeaks (fst (getPeakIntensities K ptt pint pat)) \<rparr>"
    by (simp add: getPeakIntensities_def Let_def split: prod.splits)
qed

lemma raw_sorted:
  "sort (zip rawAngles rawIntensities) = [(10, 1), (11, 5), (12, 1), (13, 5)]"
  by (simp add: rawAngles_def rawIntensities_def less_eq_prod_def)

lemma raw_sortedAngles: "sortedAngles rawAngles rawIntensities = [10, 11, 12, 13]"
  "sortedIntensities rawAngles rawIntensities = [1, 5, 1, 5]"
  by (simp_all add: sortedAngles_def sortedIntensities_def raw_sorted)
    (simp add: rawAngles_def rawIntensities_def)

lemma raw_groups: "peakGroups [[10, 11], [12, 13]] = [[0], [1]]"
  by (simp add: peakGroups_def upt_rec [of 1] Let_def)

text \<open>
  Claim C8. Let a raw pattern be processed (the spacing test of line 1521 sends the data to
  the raw branch, peaks are located and fitted). If for some peak the integrated
  pseudo-Voigt intensity is negative or the fitted maximum lies outside the measured
  range, then after \<^verbatim>\<open>set\<close> the list of diffraction peaks is empty, and the continuous
  arrays hold the sorted angles and their intensities.
\<close>

theorem setExperimental_discards_all_peaks:
  assumes "length twoTheta0 \<le> length intensity0"
    and "\<not> alreadyProcessed (sortedAngles twoTheta0 intensity0)"
    and "locatePeaks K (sortedAngles twoTheta0 intensity0)
           (sortedIntensities twoTheta0 intensity0) = Inr (ptt, pint)"
    and "wellShaped ptt pint"
    and "length (fitPeaks K ptt pint (peakGroups ptt)) = length ptt"
    and "somePeakFails K (minElement (sortedAngles twoTheta0 intensity0))
           (maxElement (sortedAngles twoTheta0 intensity0)) ptt
           (fitPeaks K ptt pint (peakGroups ptt))"
  shows "map_sum id (\<lambda>p. (diffractionPeaks p, continuousTwoTheta p, continuousIntensity p))
           (setExperimental K twoTheta0 intensity0 pat)
         = Inr ([], sortedAngles twoTheta0 intensity0, map snd (sort (zip twoTheta0 intensity0)))"
proof -
  let ?tt = "sortedAngles twoTheta0 intensity0"
  let ?int = "sortedIntensities twoTheta0 intensity0"
  let ?pat1 = "(clearExperimental pat)\<lparr> patternType := PT_EXP_RAW,
      continuousTwoTheta := ?tt, continuousIntensity := take (length ?tt) ?int,
      minTwoTheta := minElement ?tt, maxTwoTheta := maxElement ?tt \<rparr>"
  have ne: "?tt \<noteq> []" by (rule raw_nonempty [OF assms(2)])
  have bad: "somePeakFails K (minTwoTheta ?pat1) (maxTwoTheta ?pat1) ptt
      (fitPeaks K ptt pint (peakGroups ptt))"
    using assms(6) by simp
  obtain pat2 r where g: "getPeakIntensities K ptt pint ?pat1 = (pat2, r)"
    by (cases "getPeakIntensities K ptt pint ?pat1")
  have r: "r = Some (Thrown 10)"
    using getPeakIntensities_throws(1) [OF assms(4,5) bad] g by simp
  have p2: "pat2 = ?pat1\<lparr> diffractionPeaks := diffractionPeaks pat2 \<rparr>"
    using getPeakIntensities_throws(2) [OF assms(4,5) bad] g by simp
  have fields: "continuousTwoTheta pat2 = ?tt" "continuousIntensity pat2 = take (length ?tt) ?int"
    by (subst p2, simp)+
  have "setExperimental K twoTheta0 intensity0 pat = Inr (pat2\<lparr> diffractionPeaks := [] \<rparr>)"
    using assms(1,2,3) g r ne
    by (simp add: setExperimental_def Let_def bind_def)
  then show ?thesis
    by (simp add: fields sorted_take [OF assms(1)])
qed



text \<open>
  The theorem at a raw pattern with two located peaks: the first peak passes both tests
  and is stored, the second has the integral \<open>-5\<close>, and the list of peaks ends empty.
\<close>

theorem setExperimental_discards_all_peaks_witness:
  "length rawAngles \<le> length rawIntensities
   \<and> \<not> alreadyProcessed (sortedAngles rawAngles rawIntensities)
   \<and> locatePeaks twoPeakKernels (sortedAngles rawAngles rawIntensities)
        (sortedIntensities rawAngles rawIntensities) = Inr ([[10, 11], [12, 13]], [[1, 5], [1, 5]])
   \<and> wellShaped [[10, 11], [12, 13]] [[1, 5], [1, 5]]
   \<and> integratePeaks twoPeakKernels 10 13
        [[1, 0, 0, 21 / 2, 1, 0, 0, 5], [1, 0, 0, 25 / 2, 1, 0, 0, - 5]] 10 11 [0] []
       = ([newDiffractionPeak (21 / 2) 5], None)
   \<and> somePeakFails twoPeakKernels 10 13 [[10, 11], [12, 13]]
        [[1, 0, 0, 21 / 2, 1, 0, 0, 5], [1, 0, 0, 25 / 2, 1, 0, 0, - 5]]
   \<and> map_sum id (\<lambda>p. (diffractionPeaks p, continuousTwoTheta p, continuousIntensity p))
        (setExperimental twoPeakKernels rawAngles rawIntensities newExperimentalPattern)
       = Inr ([], [10, 11, 12, 13], [1, 5, 1, 5])"
proof -
  have 1: "length rawAngles \<le> length rawIntensities"
    by (simp add: rawAngles_def rawIntensities_def)
  have 2: "\<not> alreadyProcessed (sortedAngles rawAngles rawIntensities)"
    by (simp add: raw_sortedAngles alreadyProcessed_def spacing_def)
  have 3: "locatePeaks twoPeakKernels (sortedAngles rawAngles rawIntensities)
        (sortedIntensities rawAngles rawIntensities) = Inr ([[10, 11], [12, 13]], [[1, 5], [1, 5]])"
    by (simp add: twoPeakKernels_def)
  have 4: "wellShaped [[10, 11], [12, 13]] [[1, 5], [1, 5]]"
    by (simp add: wellShaped_def)
  have fit: "fitPeaks twoPeakKernels ptt pint g
      = [[1, 0, 0, 21 / 2, 1, 0, 0, 5], [1, 0, 0, 25 / 2, 1, 0, 0, - 5]]" for ptt pint g
    by (simp add: twoPeakKernels_def)
  have mm: "minElement [10, 11, 12, 13] = 10" "maxElement [10, 11, 12, 13] = 13"
    by (simp_all add: minElement_def maxElement_def)
  have 5: "integratePeaks twoPeakKernels 10 13
        [[1, 0, 0, 21 / 2, 1, 0, 0, 5], [1, 0, 0, 25 / 2, 1, 0, 0, - 5]] 10 11 [0] []
       = ([newDiffractionPeak (21 / 2) 5], None)"
    by (simp add: nth_opt_def twoPeakKernels_def Let_def)
  have 6: "somePeakFails twoPeakKernels 10 13 [[10, 11], [12, 13]]
        [[1, 0, 0, 21 / 2, 1, 0, 0, 5], [1, 0, 0, 25 / 2, 1, 0, 0, - 5]]"
    by (simp add: somePeakFails_def raw_groups failsChecks_def twoPeakKernels_def)
  show ?thesis
    using setExperimental_discards_all_peaks [of rawAngles rawIntensities twoPeakKernels "[[10, 11], [12, 13]]"
        "[[1, 5], [1, 5]]" newExperimentalPattern] 1 2 3 4 5 6
    by (simp add: fit mm raw_sortedAngles raw_sorted)
qed


end
